theory Spec2Isabelle
  imports Complex_Main "HOL-Library.Product_Lexorder"
begin

section \<open>Conventions of the embedding\<close>

text \<open>
  The program is the decision engine of a forex advisor, written in Python:
  \<^verbatim>\<open>backend/app/services/strategy_engine.py\<close> (class \<open>StrategyEngine\<close>) and the
  indicator calculator of \<^verbatim>\<open>backend/app/services/forex_api.py\<close>
  (\<open>ForexAPIService.calculate_moving_averages\<close>).

  \<^item> A Python \<open>float\<close> is modelled as a \<^typ>\<open>real\<close>; NaN and infinities are outside the
    model. The scorers compute on the exact reals. Where the outcome of a comparison
    hangs on the rounding of the arithmetic (the tolerance check of
    \<open>update_strategy_weights\<close>) and where a float is printed, the rounding to the nearest
    double is written out. A Python \<open>int\<close> is an \<^typ>\<open>int\<close>.
  \<^item> A \<open>str\<close> is a \<^typ>\<open>string\<close> of bytes (UTF-8).
  \<^item> The dictionaries the engine reads with \<open>.get\<close> are records of optional fields:
    \<open>None\<close> stands for a key that is missing (or, for a moving average, bound to Python's
    \<open>None\<close>: \<open>.get\<close> returns \<open>None\<close> in both cases).
  \<^item> A \<open>raise\<close> is the left summand of a sum type; a method that mutates \<open>self\<close>
    returns the new engine next to its outcome.
  \<^item> A leading underscore of a method name is dropped (\<open>_calculate_confidence\<close> is
    \<open>calculate_confidence\<close>).
\<close>

datatype py_error = ValueError string

section \<open>Double-precision rounding\<close>

text \<open>
  The interpreter's floats are IEEE binary64 numbers: a real is rounded to the nearest
  multiple of the unit in the last place of its binade (53 significant bits, exponent at
  least -1022, which covers the subnormal numbers), ties to the even multiple. Results
  beyond the largest double (overflow to infinity) are outside the model.
\<close>

function bit_length :: "nat \<Rightarrow> nat" where
  "bit_length n = (if n = 0 then 0 else Suc (bit_length (n div 2)))"
  by pat_completeness auto
termination
  by (relation "measure id") auto

declare bit_length.simps [simp del]

definition pow2 :: "int \<Rightarrow> real" where
  "pow2 e = (if e \<ge> 0 then 2 ^ nat e else 1 / 2 ^ nat (- e))"

text \<open>For \<open>y > 0\<close>, the exponent \<open>e\<close> with \<open>2 ^ e \<le> y < 2 ^ (e + 1)\<close>.\<close>

definition binary_exponent :: "real \<Rightarrow> int" where
  "binary_exponent y =
     (if y \<ge> 1 then int (bit_length (nat \<lfloor>y\<rfloor>)) - 1
      else - int (bit_length (nat (\<lceil>1 / y\<rceil> - 1))))"

definition round_half_even :: "real \<Rightarrow> int" where
  "round_half_even x =
     (let f = \<lfloor>x\<rfloor>; d = x - of_int f
      in if d < 1 / 2 then f
         else if d > 1 / 2 then f + 1
         else if even f then f else f + 1)"

definition round_double :: "real \<Rightarrow> real" where
  "round_double x =
     (if x = 0 then 0
      else
        (let e = max (binary_exponent \<bar>x\<bar>) (- 1022);
             ulp = pow2 (e - 52)
         in of_int (round_half_even (x / ulp)) * ulp))"

section \<open>models.py: the recommendation label\<close>

datatype RecommendationType = BUY | HOLD | SELL

fun value_of :: "RecommendationType \<Rightarrow> string" where
  "value_of BUY = ''buy''"
| "value_of HOLD = ''hold''"
| "value_of SELL = ''sell''"

section \<open>strategy\_engine.py: configuration\<close>

record Weights =
  technical :: real
  sentiment :: real
  events :: real

record StrategyEngine =
  weights :: Weights
  buy_threshold :: real
  sell_threshold :: real

text \<open>\<open>StrategyEngine.__init__\<close> (lines 8-18).\<close>

definition StrategyEngine_init :: StrategyEngine where
  "StrategyEngine_init =
     \<lparr>weights = \<lparr>technical = 0.4, sentiment = 0.3, events = 0.3\<rparr>,
      buy_threshold = 0.6, sell_threshold = - 0.6\<rparr>"

text \<open>
  \<open>update_strategy_weights\<close> (lines 263-271) and \<open>update_thresholds\<close> (lines 273-279):
  the check comes first and raises before any field is assigned.
\<close>

definition update_strategy_weights ::
  "real \<Rightarrow> real \<Rightarrow> real \<Rightarrow> StrategyEngine \<Rightarrow> (py_error + unit) \<times> StrategyEngine" where
  "update_strategy_weights technical_weight sentiment_weight event_weight self =
     (let total = technical_weight + sentiment_weight + event_weight in
      if \<bar>total - 1.0\<bar> > 0.001 then (Inl (ValueError ''Weights must sum to 1.0''), self)
      else (Inr (),
            self\<lparr>weights := \<lparr>technical = technical_weight, sentiment = sentiment_weight,
                               events = event_weight\<rparr>\<rparr>))"

definition update_thresholds ::
  "real \<Rightarrow> real \<Rightarrow> StrategyEngine \<Rightarrow> (py_error + unit) \<times> StrategyEngine" where
  "update_thresholds buy sell self =
     (if buy \<le> sell
      then (Inl (ValueError ''Buy threshold must be greater than sell threshold''), self)
      else (Inr (), self\<lparr>buy_threshold := buy, sell_threshold := sell\<rparr>))"

text \<open>
  The check of \<open>update_strategy_weights\<close> (lines 265-266) as the interpreter evaluates
  it. The three arguments are floats (a real that is not a double stands for the literal
  the interpreter reads as the nearest double); the two additions, from left to right,
  and the subtraction each round to the nearest double; the literal \<open>0.001\<close> is the double
  nearest to it and \<open>1.0\<close> is exact. \<open>update_strategy_weights\<close> above is the same method
  with this arithmetic read exactly; the two agree away from the tolerance.
\<close>

definition update_strategy_weights_double ::
  "real \<Rightarrow> real \<Rightarrow> real \<Rightarrow> StrategyEngine \<Rightarrow> (py_error + unit) \<times> StrategyEngine" where
  "update_strategy_weights_double tw sw ew self =
     (let technical_weight = round_double tw;
          sentiment_weight = round_double sw;
          event_weight = round_double ew;
          total = round_double (round_double (technical_weight + sentiment_weight)
                                + event_weight)
      in if \<bar>round_double (total - 1.0)\<bar> > round_double 0.001
         then (Inl (ValueError ''Weights must sum to 1.0''), self)
         else (Inr (),
               self\<lparr>weights := \<lparr>technical = technical_weight, sentiment = sentiment_weight,
                                  events = event_weight\<rparr>\<rparr>))"

text \<open>The configurations the two update operations can produce from the initial one.\<close>

inductive reachable :: "StrategyEngine \<Rightarrow> bool" where
  reachable_init: "reachable StrategyEngine_init"
| reachable_weights:
    "reachable e \<Longrightarrow> update_strategy_weights tw sw ew e = (Inr (), e') \<Longrightarrow> reachable e'"
| reachable_thresholds:
    "reachable e \<Longrightarrow> update_thresholds b s e = (Inr (), e') \<Longrightarrow> reachable e'"

section \<open>strategy\_engine.py: the three factor scores\<close>

record technical_data =
  current_rate :: "real option"
  moving_average_5 :: "real option"
  moving_average_20 :: "real option"
  moving_average_50 :: "real option"
  trend_direction :: "string option"
  current_price :: "real option"
  summary :: "string option"

text \<open>
  \<open>_calculate_technical_score\<close> (lines 61-107). The pair is the method's two local
  variables \<open>(score, factors)\<close>; each block below is one \<open>if\<close> block of the source.
\<close>

text \<open>Lines 73-86: price against MA20, then MA5 against MA20.\<close>

fun moving_average_analysis ::
  "real \<Rightarrow> real option \<Rightarrow> real option \<Rightarrow> real \<times> int \<Rightarrow> real \<times> int" where
  "moving_average_analysis rate (Some ma_5) (Some ma_20) (score, factors) =
     (if ma_5 \<noteq> 0 \<and> ma_20 \<noteq> 0 \<and> rate > 0 then
        (let score = (if rate > ma_20 then score + 0.3
                      else if rate < ma_20 then score - 0.3 else score);
             factors = factors + 1;
             score = (if ma_5 > ma_20 then score + 0.2
                      else if ma_5 < ma_20 then score - 0.2 else score);
             factors = factors + 1
         in (score, factors))
      else (score, factors))"
| "moving_average_analysis rate _ _ (score, factors) = (score, factors)"

text \<open>Lines 88-94: MA20 against MA50.\<close>

fun long_term_trend :: "real option \<Rightarrow> real option \<Rightarrow> real \<times> int \<Rightarrow> real \<times> int" where
  "long_term_trend (Some ma_20) (Some ma_50) (score, factors) =
     (if ma_20 \<noteq> 0 \<and> ma_50 \<noteq> 0 then
        (let score = (if ma_20 > ma_50 then score + 0.2
                      else if ma_20 < ma_50 then score - 0.2 else score);
             factors = factors + 1
         in (score, factors))
      else (score, factors))"
| "long_term_trend _ _ (score, factors) = (score, factors)"

text \<open>Lines 96-101: the trend label; the count is incremented outside the \<open>if\<close>.\<close>

fun trend_signal :: "string \<Rightarrow> real \<times> int \<Rightarrow> real \<times> int" where
  "trend_signal trend (score, factors) =
     (let score = (if trend = ''upward'' then score + 0.3
                   else if trend = ''downward'' then score - 0.3 else score);
          factors = factors + 1
      in (score, factors))"

text \<open>Lines 63-101: the accumulator and the count before normalisation.\<close>

definition technical_signals :: "technical_data \<Rightarrow> real \<times> int" where
  "technical_signals td =
     (let rate = (case current_rate td of None \<Rightarrow> 0 | Some r \<Rightarrow> r);
          ma_5 = moving_average_5 td;
          ma_20 = moving_average_20 td;
          ma_50 = moving_average_50 td;
          trend = (case trend_direction td of None \<Rightarrow> ''neutral'' | Some t \<Rightarrow> t)
      in trend_signal trend
           (long_term_trend ma_20 ma_50
              (moving_average_analysis rate ma_5 ma_20 (0, 0))))"

text \<open>Lines 103-107: normalisation and clamping.\<close>

definition calculate_technical_score :: "technical_data \<Rightarrow> real" where
  "calculate_technical_score td =
     (case technical_signals td of (score, factors) \<Rightarrow>
        (let score = (if factors > 0 then score / real_of_int factors else score)
         in max (- 1.0) (min 1.0 score)))"

text \<open>\<open>_determine_recommendation\<close> (lines 149-156).\<close>

definition determine_recommendation :: "StrategyEngine \<Rightarrow> real \<Rightarrow> RecommendationType" where
  "determine_recommendation self overall =
     (if overall \<ge> buy_threshold self then BUY
      else if overall \<le> sell_threshold self then SELL
      else HOLD)"

text \<open>
  \<open>_calculate_confidence\<close> (lines 158-182). \<open>confidence_base\<close> is the value of the local
  variable \<open>confidence\<close> after the \<open>if\<close> chain of lines 168-176.
\<close>

definition confidence_base :: "real \<Rightarrow> real \<Rightarrow> real \<Rightarrow> real" where
  "confidence_base t s e =
     (let scores = [t, s, e];
          positive_scores = int (length (filter (\<lambda>x. x > 0.1) scores));
          negative_scores = int (length (filter (\<lambda>x. x < - 0.1) scores));
          neutral_scores = int (length (filter (\<lambda>x. - 0.1 \<le> x \<and> x \<le> 0.1) scores))
      in if positive_scores \<ge> 2 \<and> negative_scores = 0
           then 0.8 + real_of_int (positive_scores - 2) * 0.1
         else if negative_scores \<ge> 2 \<and> positive_scores = 0
           then 0.8 + real_of_int (negative_scores - 2) * 0.1
         else if neutral_scores \<ge> 2 then 0.6
         else 0.5)"

definition calculate_confidence :: "real \<Rightarrow> real \<Rightarrow> real \<Rightarrow> real" where
  "calculate_confidence t s e =
     (let scores = [t, s, e];
          confidence = confidence_base t s e;
          avg_magnitude = sum_list (map abs scores) / real (length scores);
          confidence = confidence * (0.5 + avg_magnitude * 0.5)
      in max 0.0 (min 1.0 confidence))"

record sentiment_data =
  score :: "real option"
  news_count :: "int option"
  economic_events :: "string list option"
  geopolitical_events :: "string list option"

text \<open>\<open>_calculate_sentiment_score\<close> (lines 109-122).\<close>

definition calculate_sentiment_score :: "sentiment_data \<Rightarrow> real" where
  "calculate_sentiment_score sd =
     (let raw = (case score sd of None \<Rightarrow> 0.0 | Some v \<Rightarrow> v);
          count = (case news_count sd of None \<Rightarrow> 0 | Some n \<Rightarrow> n);
          adjusted = (if count > 10 then raw * 1.2
                      else if count < 3 then raw * 0.5 else raw)
      in max (- 1.0) (min 1.0 adjusted))"

subsection \<open>String operations of the event scorer\<close>

text \<open>
  \<open>str.lower\<close>, \<open>str.upper\<close> and \<open>str.title\<close> on the ASCII letters (other bytes are kept),
  and the substring test \<open>keyword in text\<close>.
\<close>

definition is_upper :: "char \<Rightarrow> bool" where
  "is_upper c = (65 \<le> (of_char c :: nat) \<and> (of_char c :: nat) \<le> 90)"

definition is_lower :: "char \<Rightarrow> bool" where
  "is_lower c = (97 \<le> (of_char c :: nat) \<and> (of_char c :: nat) \<le> 122)"

definition lower_char :: "char \<Rightarrow> char" where
  "lower_char c = (if is_upper c then char_of ((of_char c :: nat) + 32) else c)"

definition upper_char :: "char \<Rightarrow> char" where
  "upper_char c = (if is_lower c then char_of ((of_char c :: nat) - 32) else c)"

definition lower :: "string \<Rightarrow> string" where
  "lower s = map lower_char s"

definition upper :: "string \<Rightarrow> string" where
  "upper s = map upper_char s"

fun title_from :: "bool \<Rightarrow> string \<Rightarrow> string" where
  "title_from in_word [] = []"
| "title_from in_word (c # cs) =
     (if is_upper c \<or> is_lower c
      then (if in_word then lower_char c else upper_char c) # title_from True cs
      else c # title_from False cs)"

definition title :: "string \<Rightarrow> string" where
  "title s = title_from False s"

fun has_prefix :: "string \<Rightarrow> string \<Rightarrow> bool" where
  "has_prefix [] s = True"
| "has_prefix (k # ks) [] = False"
| "has_prefix (k # ks) (c # cs) = (k = c \<and> has_prefix ks cs)"

fun contains :: "string \<Rightarrow> string \<Rightarrow> bool" where
  "contains keyword [] = (keyword = [])"
| "contains keyword (c # cs) = (has_prefix keyword (c # cs) \<or> contains keyword cs)"

definition any_keyword :: "string list \<Rightarrow> string \<Rightarrow> bool" where
  "any_keyword keywords text = list_ex (\<lambda>keyword. contains keyword text) keywords"

text \<open>\<open>_calculate_event_score\<close> (lines 124-147): the two \<open>for\<close> loops, then the clamp.\<close>

fun economic_events_loop :: "string list \<Rightarrow> real \<Rightarrow> real" where
  "economic_events_loop [] acc = acc"
| "economic_events_loop (event # rest) acc =
     (let event_lower = lower event in
      if any_keyword [''rate cut'', ''stimulus'', ''growth''] event_lower
        then economic_events_loop rest (acc + 0.2)
      else if any_keyword [''rate hike'', ''inflation'', ''recession''] event_lower
        then economic_events_loop rest (acc - 0.2)
      else economic_events_loop rest acc)"

fun geopolitical_events_loop :: "string list \<Rightarrow> real \<Rightarrow> real" where
  "geopolitical_events_loop [] acc = acc"
| "geopolitical_events_loop (event # rest) acc =
     (let event_lower = lower event in
      if any_keyword [''war'', ''conflict'', ''sanctions''] event_lower
        then geopolitical_events_loop rest (acc - 0.3)
      else if any_keyword [''deal'', ''agreement'', ''stability''] event_lower
        then geopolitical_events_loop rest (acc + 0.2)
      else geopolitical_events_loop rest acc)"

definition calculate_event_score :: "sentiment_data \<Rightarrow> real" where
  "calculate_event_score sd =
     (let economic = (case economic_events sd of None \<Rightarrow> [] | Some l \<Rightarrow> l);
          geopolitical = (case geopolitical_events sd of None \<Rightarrow> [] | Some l \<Rightarrow> l);
          acc = geopolitical_events_loop geopolitical (economic_events_loop economic 0.0)
      in max (- 1.0) (min 1.0 acc))"

section \<open>strategy\_engine.py: the justification text\<close>

subsection \<open>Formatting of numbers\<close>

text \<open>
  \<open>str(n)\<close> of a natural number, \<open>f"{i}"\<close> of an integer and \<open>f"{x:.Nf}"\<close> of a float:
  the decimal expansion of the double with \<open>N\<close> digits after the point, ties to even
  (for \<open>N > 0\<close>, the only use of the source). A real that is not a double is printed as
  the double nearest to it. The digits are those of the value the model computed: where
  the interpreter's arithmetic has rounded on the way, its last digit or the sign of a
  zero can differ.
\<close>

function str_nat :: "nat \<Rightarrow> string" where
  "str_nat n =
     (if n < 10 then [char_of (48 + n)]
      else str_nat (n div 10) @ [char_of (48 + n mod 10)])"
  by pat_completeness auto
termination
  by (relation "measure id") auto

declare str_nat.simps [simp del]

definition str_int :: "int \<Rightarrow> string" where
  "str_int i = (if i < 0 then ''-'' @ str_nat (nat (- i)) else str_nat (nat i))"

definition format_fixed :: "nat \<Rightarrow> real \<Rightarrow> string" where
  "format_fixed p x =
     (let m = nat (round_half_even (\<bar>round_double x\<bar> * 10 ^ p));
          whole = str_nat (m div 10 ^ p);
          frac = str_nat (m mod 10 ^ p)
      in (if x < 0 then ''-'' else []) @ whole @ ''.''
           @ replicate (p - length frac) (CHR ''0'') @ frac)"

definition nl :: string where
  "nl = [CHR 0x0A]"

text \<open>The line \<open>"  \<bullet> {event}\n"\<close>: the bullet is U+2022, three bytes in UTF-8.\<close>

definition bullet_line :: "string \<Rightarrow> string" where
  "bullet_line event = ''  '' @ [CHR 0xE2, CHR 0x80, CHR 0xA2] @ '' '' @ event @ nl"

subsection \<open>\<open>_generate_justification\<close> (lines 184-261), section by section\<close>

text \<open>Lines 190-191.\<close>

definition justification_header :: "string \<Rightarrow> RecommendationType \<Rightarrow> real \<Rightarrow> string" where
  "justification_header currency_pair label overall =
     ''**Recommendation: '' @ upper (value_of label) @ ''** for '' @ currency_pair @ nl @ nl
     @ ''**Overall Score:** '' @ format_fixed 3 overall @ nl @ nl"

text \<open>Lines 193-208.\<close>

definition technical_section :: "technical_data \<Rightarrow> real \<Rightarrow> string" where
  "technical_section td t_score =
     (let rate = (case current_rate td of None \<Rightarrow> 0 | Some r \<Rightarrow> r);
          trend = (case trend_direction td of None \<Rightarrow> ''neutral'' | Some t \<Rightarrow> t)
      in ''**Technical Analysis:**'' @ nl
         @ ''- Current Rate: '' @ format_fixed 4 rate @ nl
         @ (case moving_average_20 td of
              None \<Rightarrow> []
            | Some ma_20 \<Rightarrow>
                if ma_20 \<noteq> 0 then
                  ''- 20-Day Moving Average: '' @ format_fixed 4 ma_20 @ nl
                  @ (if rate > ma_20
                     then ''- Price is above MA20, indicating bullish momentum'' @ nl
                     else ''- Price is below MA20, indicating bearish momentum'' @ nl)
                else [])
         @ ''- Trend Direction: '' @ title trend @ nl
         @ ''- Technical Score: '' @ format_fixed 3 t_score @ nl @ nl)"

text \<open>Lines 210-225.\<close>

definition sentiment_section :: "sentiment_data \<Rightarrow> real \<Rightarrow> string" where
  "sentiment_section sd s_score =
     (let sentiment_score_raw = (case score sd of None \<Rightarrow> 0 | Some v \<Rightarrow> v);
          count = (case news_count sd of None \<Rightarrow> 0 | Some n \<Rightarrow> n)
      in ''**Sentiment Analysis:**'' @ nl
         @ ''- News Articles Analyzed: '' @ str_int count @ nl
         @ ''- Sentiment Score: '' @ format_fixed 3 sentiment_score_raw @ nl
         @ (if sentiment_score_raw > 0.1 then ''- Market sentiment is positive'' @ nl
            else if sentiment_score_raw < - 0.1 then ''- Market sentiment is negative'' @ nl
            else ''- Market sentiment is neutral'' @ nl)
         @ ''- Weighted Sentiment Score: '' @ format_fixed 3 s_score @ nl @ nl)"

text \<open>Lines 227-242.\<close>

definition event_section :: "sentiment_data \<Rightarrow> real \<Rightarrow> string" where
  "event_section sd e_score =
     (let economic = (case economic_events sd of None \<Rightarrow> [] | Some l \<Rightarrow> l);
          geopolitical = (case geopolitical_events sd of None \<Rightarrow> [] | Some l \<Rightarrow> l)
      in ''**Event Analysis:**'' @ nl
         @ (if economic \<noteq> [] then
              ''- Economic Events: '' @ str_nat (length economic) @ '' detected'' @ nl
              @ concat (map bullet_line (take 2 economic))
            else [])
         @ (if geopolitical \<noteq> [] then
              ''- Geopolitical Events: '' @ str_nat (length geopolitical) @ '' detected'' @ nl
              @ concat (map bullet_line (take 2 geopolitical))
            else [])
         @ ''- Event Impact Score: '' @ format_fixed 3 e_score @ nl @ nl)"

text \<open>Lines 244-259: the closing section.\<close>

definition final_reasoning :: "RecommendationType \<Rightarrow> real \<Rightarrow> string" where
  "final_reasoning label s_score =
     ''**Final Reasoning:**'' @ nl
     @ (if label = BUY then
          ''- Multiple factors align to suggest upward price movement'' @ nl
          @ ''- Technical indicators show bullish signals'' @ nl
          @ (if s_score > 0 then ''- Positive market sentiment supports buying'' @ nl else [])
        else if label = SELL then
          ''- Multiple factors align to suggest downward price movement'' @ nl
          @ ''- Technical indicators show bearish signals'' @ nl
          @ (if s_score < 0 then ''- Negative market sentiment supports selling'' @ nl else [])
        else
          ''- Mixed signals suggest maintaining current position'' @ nl
          @ ''- Wait for clearer market direction before taking action'' @ nl)"

definition generate_justification ::
  "string \<Rightarrow> RecommendationType \<Rightarrow> technical_data \<Rightarrow> sentiment_data
     \<Rightarrow> real \<Rightarrow> real \<Rightarrow> real \<Rightarrow> real \<Rightarrow> string" where
  "generate_justification currency_pair label td sd t_score s_score e_score overall =
     justification_header currency_pair label overall
     @ technical_section td t_score
     @ sentiment_section sd s_score
     @ event_section sd e_score
     @ final_reasoning label s_score"

section \<open>strategy\_engine.py: \<open>generate_recommendation\<close> (lines 20-59)\<close>

record recommendation_result =
  recommendation :: RecommendationType
  confidence_score :: real
  overall_score :: real
  technical_score :: real
  sentiment_score :: real
  event_score :: real
  justification :: string

definition generate_recommendation ::
  "StrategyEngine \<Rightarrow> string \<Rightarrow> technical_data \<Rightarrow> sentiment_data \<Rightarrow> real
     \<Rightarrow> recommendation_result" where
  "generate_recommendation self currency_pair td sd rate_arg =
     (let t_score = calculate_technical_score td;
          s_score = calculate_sentiment_score sd;
          e_score = calculate_event_score sd;
          overall = t_score * technical (weights self)
                    + s_score * sentiment (weights self)
                    + e_score * events (weights self);
          label = determine_recommendation self overall;
          confidence = calculate_confidence t_score s_score e_score;
          text = generate_justification currency_pair label td sd
                   t_score s_score e_score overall
      in \<lparr>recommendation = label,
          confidence_score = confidence,
          overall_score = overall,
          technical_score = t_score,
          sentiment_score = s_score,
          event_score = e_score,
          justification = text\<rparr>)"

section \<open>forex\_api.py: the indicator calculator\<close>

text \<open>
  The time series is the dictionary of the provider after parsing: one row per date key,
  in insertion order, with the date read by \<open>strptime\<close> (year, month, day) and the close
  read by \<open>float\<close>. \<open>sort_values('date')\<close> is the stable sort on the date.
\<close>

type_synonym date = "nat \<times> nat \<times> nat"

definition empty_dict :: technical_data where
  "empty_dict =
     \<lparr>current_rate = None, moving_average_5 = None, moving_average_20 = None,
      moving_average_50 = None, trend_direction = None, current_price = None,
      summary = None\<rparr>"

text \<open>
  \<open>df['close'].rolling(window=w).mean()\<close> read at the last row, after the \<open>pd.isna\<close>
  test of lines 114-116: the mean of the last \<open>w\<close> closes, absent with fewer rows.
\<close>

definition rolling_mean_last :: "nat \<Rightarrow> real list \<Rightarrow> real option" where
  "rolling_mean_last window closes =
     (if length closes < window then None
      else Some (sum_list (drop (length closes - window) closes) / real window))"

text \<open>\<open>calculate_moving_averages\<close> (lines 78-119).\<close>

definition calculate_moving_averages :: "(date \<times> real) list \<Rightarrow> py_error + technical_data" where
  "calculate_moving_averages time_series_data =
     (if time_series_data = [] then Inr empty_dict
      else
        (let df = sort_key fst time_series_data;
             closes = map snd df;
             n = length closes;
             ma_5 = rolling_mean_last 5 closes;
             ma_20 = rolling_mean_last 20 closes;
             ma_50 = rolling_mean_last 50 closes;
             latest_close = last closes;
             trend =
               (if n \<ge> 20 then
                  (case ma_20 of
                     None \<Rightarrow> ''neutral''
                   | Some m \<Rightarrow>
                       if latest_close > m \<and> closes ! (n - 2) > closes ! (n - 3)
                         then ''upward''
                       else if latest_close < m \<and> closes ! (n - 2) < closes ! (n - 3)
                         then ''downward''
                       else ''neutral'')
                else ''neutral'')
         in Inr \<lparr>current_rate = None,
                 moving_average_5 = ma_5,
                 moving_average_20 = ma_20,
                 moving_average_50 = ma_50,
                 trend_direction = Some trend,
                 current_price = Some latest_close,
                 summary = None\<rparr>))"

text \<open>\<open>_generate_technical_summary\<close> (lines 156-168).\<close>

definition generate_technical_summary :: "technical_data \<Rightarrow> real \<Rightarrow> string" where
  "generate_technical_summary td rate =
     (let trend = (case trend_direction td of None \<Rightarrow> ''unknown'' | Some t \<Rightarrow> t);
          ma_20_str = (case moving_average_20 td of
                         None \<Rightarrow> ''N/A''
                       | Some m \<Rightarrow> if m \<noteq> 0 then format_fixed 4 m else ''N/A'')
      in if trend = ''upward'' then
           ''Technical analysis shows an upward trend. Current rate (''
           @ format_fixed 4 rate @ '') is above the 20-day moving average (''
           @ ma_20_str @ ''), indicating bullish momentum.''
         else if trend = ''downward'' then
           ''Technical analysis shows a downward trend. Current rate (''
           @ format_fixed 4 rate @ '') is below the 20-day moving average (''
           @ ma_20_str @ ''), indicating bearish momentum.''
         else
           ''Technical analysis shows a neutral trend. Current rate is ''
           @ format_fixed 4 rate
           @ ''. Market direction is unclear based on moving averages.'')"

text \<open>
  \<open>get_technical_analysis\<close> (lines 121-154), after its two fetches: \<open>fetched_rate\<close> is
  the \<open>'rate'\<close> of the quote (\<open>None\<close> when no quote came back) and \<open>time_series\<close> the daily
  series (\<open>None\<close> when none came back).
\<close>

definition get_technical_analysis ::
  "real option \<Rightarrow> (date \<times> real) list option \<Rightarrow> py_error + technical_data" where
  "get_technical_analysis fetched_rate time_series =
     (case (fetched_rate, time_series) of
        (Some rate, Some rows) \<Rightarrow>
          if rows = [] then
            Inr \<lparr>current_rate = Some 0.0, moving_average_5 = None, moving_average_20 = None,
                 moving_average_50 = None, trend_direction = Some ''unknown'',
                 current_price = None,
                 summary = Some ''Unable to fetch technical data''\<rparr>
          else
            (case calculate_moving_averages rows of
               Inl err \<Rightarrow> Inl err
             | Inr td \<Rightarrow>
                 Inr \<lparr>current_rate = Some rate,
                      moving_average_5 = moving_average_5 td,
                      moving_average_20 = moving_average_20 td,
                      moving_average_50 = moving_average_50 td,
                      trend_direction =
                        Some (case trend_direction td of None \<Rightarrow> ''unknown'' | Some t \<Rightarrow> t),
                      current_price = None,
                      summary = Some (generate_technical_summary td rate)\<rparr>)
      | _ \<Rightarrow>
          Inr \<lparr>current_rate = Some 0.0, moving_average_5 = None, moving_average_20 = None,
               moving_average_50 = None, trend_direction = Some ''unknown'',
               current_price = None,
               summary = Some ''Unable to fetch technical data''\<rparr>)"

section \<open>The confidence rule in the words of the specification\<close>

text \<open>
  The specification of the confidence estimator, written down independently of the code:
  each factor score is positive (above 0.1), negative (below -0.1) or neutral; the base
  is chosen from the counts; the result is the base times
  \<open>0.5 + 0.5 * mean of the absolute scores\<close>, clamped to the unit interval.
\<close>

datatype factor_class = Positive | Negative | Neutral

definition classify :: "real \<Rightarrow> factor_class" where
  "classify x = (if x > 0.1 then Positive else if x < - 0.1 then Negative else Neutral)"

definition spec_confidence_base :: "real \<Rightarrow> real \<Rightarrow> real \<Rightarrow> real" where
  "spec_confidence_base t s e =
     (let classes = map classify [t, s, e];
          positive_count = count_list classes Positive;
          negative_count = count_list classes Negative;
          neutral_count = count_list classes Neutral
      in if positive_count \<ge> 2 \<and> negative_count = 0
           then 0.8 + 0.1 * (real positive_count - 2)
         else if negative_count \<ge> 2 \<and> positive_count = 0
           then 0.8 + 0.1 * (real negative_count - 2)
         else if neutral_count \<ge> 2 then 0.6
         else 0.5)"

definition spec_confidence :: "real \<Rightarrow> real \<Rightarrow> real \<Rightarrow> real" where
  "spec_confidence t s e =
     max 0 (min 1 (spec_confidence_base t s e * (0.5 + 0.5 * ((\<bar>t\<bar> + \<bar>s\<bar> + \<bar>e\<bar>) / 3))))"

section \<open>Reading the closing section back from a justification\<close>

text \<open>
  The closing section of a justification text is what starts at the last occurrence of
  the heading \<open>**Final Reasoning:**\<close> (an event description printed earlier may contain
  the heading too, so the first occurrence would not do).
\<close>

definition final_marker :: string where
  "final_marker = ''**Final Reasoning:**'' @ [CHR 0x0A]"

fun final_section :: "string \<Rightarrow> string" where
  "final_section [] = []"
| "final_section (c # cs) =
     (if contains final_marker cs then final_section cs
      else if has_prefix final_marker (c # cs) then c # cs
      else [])"

section \<open>Example inputs\<close>

text \<open>A history of four daily closes, given out of order, and what the calculator returns.\<close>

definition four_closes :: "(date \<times> real) list" where
  "four_closes =
     [((2024, 1, 5), 1.0880), ((2024, 1, 2), 1.0850), ((2024, 1, 3), 1.0862),
      ((2024, 1, 4), 1.0871)]"

definition four_closes_result :: technical_data where
  "four_closes_result =
     \<lparr>current_rate = None, moving_average_5 = None, moving_average_20 = None,
      moving_average_50 = None, trend_direction = Some ''neutral'',
      current_price = Some 1.0880, summary = None\<rparr>"

text \<open>A snapshot with a quote and an upward trend, and no moving average.\<close>

definition upward_snapshot :: technical_data where
  "upward_snapshot =
     \<lparr>current_rate = Some 1.1, moving_average_5 = None, moving_average_20 = None,
      moving_average_50 = None, trend_direction = Some ''upward'', current_price = None,
      summary = None\<rparr>"

text \<open>Five articles with neutral polarity and no event; five with polarity 0.5.\<close>

definition flat_news :: sentiment_data where
  "flat_news =
     \<lparr>score = Some 0.0, news_count = Some 5, economic_events = Some [],
      geopolitical_events = Some []\<rparr>"

definition positive_news :: sentiment_data where
  "positive_news =
     \<lparr>score = Some 0.5, news_count = Some 5, economic_events = Some [],
      geopolitical_events = Some []\<rparr>"

text \<open>Five articles with polarity 1.0, each reporting growth.\<close>

definition growth_news :: sentiment_data where
  "growth_news =
     \<lparr>score = Some 1.0, news_count = Some 5,
      economic_events = Some (replicate 5 ''Growth mentioned in: GDP beats forecast...''),
      geopolitical_events = Some []\<rparr>"

text \<open>The engine after \<open>update_strategy_weights(0.0, 0.5005, 0.5005)\<close>, a call that passes
  the check, and the engine after \<open>update_thresholds(0.1, -0.1)\<close>.\<close>

definition reweighted_engine :: StrategyEngine where
  "reweighted_engine = snd (update_strategy_weights 0.0 0.5005 0.5005 StrategyEngine_init)"

definition narrow_engine :: StrategyEngine where
  "narrow_engine = snd (update_thresholds 0.1 (- 0.1) StrategyEngine_init)"

section \<open>Accuracy of the double-precision rounding\<close>

lemma bit_length_pos: "n > 0 \<Longrightarrow> bit_length n > 0"
  by (subst bit_length.simps) simp

lemma bit_length_bounds:
  "n > 0 \<Longrightarrow> 2 ^ (bit_length n - 1) \<le> n \<and> n < 2 ^ bit_length n"
proof (induction n rule: bit_length.induct)
  case (1 n)
  show ?case
  proof (cases "n div 2 = 0")
    case True
    then have n: "n = 1" using "1.prems" by (simp add: div_eq_0_iff) 
    have "bit_length 1 = 1"
      by (subst bit_length.simps, subst bit_length.simps) simp
    then show ?thesis using n by simp
  next
    case False
    then have m: "n div 2 > 0" by simp
    have ih: "2 ^ (bit_length (n div 2) - 1) \<le> n div 2 \<and> n div 2 < 2 ^ bit_length (n div 2)"
      using "1.IH" "1.prems" m by simp
    have bl: "bit_length n = Suc (bit_length (n div 2))"
      using "1.prems" by (subst bit_length.simps) simp
    obtain k where k: "bit_length (n div 2) = Suc k"
      using bit_length_pos [OF m] by (cases "bit_length (n div 2)") auto
    have lo: "2 ^ Suc k \<le> n"
    proof -
      have "(2::nat) ^ Suc k = 2 * 2 ^ k" by simp
      also have "\<dots> \<le> 2 * (n div 2)" using ih k by simp
      also have "\<dots> \<le> n" by simp
      finally show ?thesis .
    qed
    have hi: "n < 2 ^ Suc (Suc k)"
    proof -
      have "n div 2 + 1 \<le> 2 ^ Suc k" using ih k by simp
      then have "2 * (n div 2) + 2 \<le> 2 * 2 ^ Suc k" by simp
      moreover have "n < 2 * (n div 2) + 2" by presburger
      ultimately show ?thesis by simp
    qed
    show ?thesis using lo hi by (simp add: bl k)
  qed
qed

lemma pow2_powr: "pow2 e = 2 powr (real_of_int e)"
proof (cases "e \<ge> 0")
  case True
  then obtain n where n: "e = int n"
    using zero_le_imp_eq_int by blast
  have "(2::real) powr real n = 2 ^ n"
    by (simp add: powr_realpow)
  then show ?thesis by (simp add: pow2_def n)
next
  case False
  then obtain n where n: "e = - int (Suc n)"
    using negD [of e] by auto
  have A: "(2::real) powr real (Suc n) = 2 ^ Suc n"
    by (rule powr_realpow) simp
  have "(2::real) powr (- real (Suc n)) = 1 / 2 powr real (Suc n)"
    by (rule powr_minus_divide)
  then have B: "(2::real) powr (- real (Suc n)) = 1 / 2 ^ Suc n"
    by (simp only: A)
  have C: "pow2 (- int (Suc n)) = 1 / 2 ^ Suc n"
    by (simp add: pow2_def nat_add_distrib)
  have D: "real_of_int (- int (Suc n)) = - real (Suc n)"
    by simp
  show ?thesis unfolding n C D B ..
qed

lemma pow2_pos: "0 < pow2 e"
  by (simp add: pow2_powr)

lemma pow2_ulp: "pow2 (e - 52) = pow2 e / 2 ^ 52"
proof -
  have "pow2 (e - 52) = 2 powr (real_of_int e - 52)"
    by (simp add: pow2_powr)
  also have "\<dots> = 2 powr (real_of_int e) / 2 powr 52"
    by (simp add: powr_diff)
  also have "(2::real) powr 52 = 2 ^ 52"
    by (simp add: powr_numeral)
  finally show ?thesis by (simp add: pow2_powr)
qed

lemma pow2_double: "pow2 (e + 1) = 2 * pow2 e"
  by (simp add: pow2_powr powr_add)

lemma pow2_mono: "a \<le> b \<Longrightarrow> pow2 a \<le> pow2 b"
  by (simp add: pow2_powr)

lemma binary_exponent_bounds:
  assumes "0 < y"
  shows "pow2 (binary_exponent y) \<le> y \<and> y < pow2 (binary_exponent y + 1)"
proof (cases "y \<ge> 1")
  case True
  define n where "n = nat \<lfloor>y\<rfloor>"
  have n: "n > 0" using True by (simp add: n_def)
  have ny: "real n \<le> y \<and> y < real n + 1"
    using True unfolding n_def by (simp add: of_nat_nat)
  from bit_length_bounds [OF n] have b: "2 ^ (bit_length n - 1) \<le> n" "n < 2 ^ bit_length n"
    by auto
  obtain k where k: "bit_length n = Suc k"
    using bit_length_pos [OF n] by (cases "bit_length n") auto
  have e: "binary_exponent y = int k"
    using True by (simp add: binary_exponent_def n_def [symmetric] k)
  have "(2::nat) ^ k \<le> n" using b(1) k by simp
  then have "real ((2::nat) ^ k) \<le> real n" by (rule of_nat_mono)
  then have lo: "(2::real) ^ k \<le> n" by simp
  have "n + 1 \<le> 2 ^ Suc k" using b(2) k by simp
  then have "real (n + 1) \<le> real ((2::nat) ^ Suc k)" by (rule of_nat_mono)
  then have hi: "real n + 1 \<le> 2 ^ Suc k" by simp
  have p1: "pow2 (int k) = 2 ^ k" by (simp add: pow2_def)
  have p2: "pow2 (int k + 1) = 2 ^ Suc k" by (simp add: pow2_def nat_add_distrib)
  show ?thesis
    unfolding e p1 p2 using lo hi ny by (intro conjI) linarith+
next
  case False
  then have y1: "y < 1" by simp
  define z where "z = 1 / y"
  have z: "z > 1" using assms y1 by (simp add: z_def)
  define n where "n = nat (\<lceil>z\<rceil> - 1)"
  have cz: "real_of_int \<lceil>z\<rceil> - 1 < z \<and> z \<le> real_of_int \<lceil>z\<rceil>"
    by linarith
  have c2: "\<lceil>z\<rceil> \<ge> 2" using z by linarith
  have n: "n > 0" using c2 by (simp add: n_def)
  have nz: "real n < z \<and> z \<le> real n + 1"
    using cz c2 unfolding n_def by (simp add: of_nat_nat)
  from bit_length_bounds [OF n] have b: "2 ^ (bit_length n - 1) \<le> n" "n < 2 ^ bit_length n"
    by auto
  obtain k where k: "bit_length n = Suc k"
    using bit_length_pos [OF n] by (cases "bit_length n") auto
  have e: "binary_exponent y = - int (Suc k)"
    using False by (simp add: binary_exponent_def z_def [symmetric] n_def [symmetric] k)
  have "(2::nat) ^ k \<le> n" using b(1) k by simp
  then have "real ((2::nat) ^ k) \<le> real n" by (rule of_nat_mono)
  then have lo: "(2::real) ^ k \<le> n" by simp
  have "n + 1 \<le> 2 ^ Suc k" using b(2) k by simp
  then have "real (n + 1) \<le> real ((2::nat) ^ Suc k)" by (rule of_nat_mono)
  then have hi: "real n + 1 \<le> 2 ^ Suc k" by simp
  have zhi: "z \<le> 2 ^ Suc k" using nz hi by linarith
  have zlo: "2 ^ k < z" using nz lo by linarith
  have p1: "pow2 (- int (Suc k)) = 1 / 2 ^ Suc k" by (simp add: pow2_def nat_add_distrib)
  have "- int (Suc k) + 1 = - int k" by simp
  moreover have "pow2 (- int k) = 1 / 2 ^ k"
    by (cases k) (simp_all add: pow2_def nat_add_distrib)
  ultimately have p2: "pow2 (- int (Suc k) + 1) = 1 / 2 ^ k" by simp
  have A: "1 / 2 ^ Suc k \<le> y"
  proof -
    have "1 / 2 ^ Suc k \<le> 1 / z"
      using zhi z by (intro divide_left_mono) auto
    then show ?thesis using assms by (simp add: z_def)
  qed
  have B: "y < 1 / 2 ^ k"
  proof -
    have "1 / z < 1 / 2 ^ k"
      using zlo z by (intro divide_strict_left_mono) (auto intro: mult_pos_pos)
    then show ?thesis using assms by (simp add: z_def)
  qed
  show ?thesis unfolding e p1 p2 using A B by simp
qed

lemma round_half_even_error: "\<bar>real_of_int (round_half_even x) - x\<bar> \<le> 1 / 2"
proof -
  have "real_of_int \<lfloor>x\<rfloor> \<le> x \<and> x < real_of_int \<lfloor>x\<rfloor> + 1" by linarith
  then show ?thesis
    by (auto simp: round_half_even_def Let_def abs_le_iff)
qed

lemma round_double_error:
  "\<bar>round_double x - x\<bar> \<le> max (\<bar>x\<bar> / 2 ^ 53) (pow2 (- 1075))"
proof (cases "x = 0")
  case True
  then show ?thesis using pow2_pos [of "- 1075"] by (simp add: round_double_def)
next
  case False
  define e where "e = max (binary_exponent \<bar>x\<bar>) (- 1022)"
  define ulp where "ulp = pow2 (e - 52)"
  have up: "ulp > 0" by (simp add: ulp_def pow2_pos)
  have rd: "round_double x = real_of_int (round_half_even (x / ulp)) * ulp"
    using False by (simp add: round_double_def Let_def e_def ulp_def)
  have "\<bar>round_double x - x\<bar> = \<bar>real_of_int (round_half_even (x / ulp)) - x / ulp\<bar> * ulp"
  proof -
    have "round_double x - x = (real_of_int (round_half_even (x / ulp)) - x / ulp) * ulp"
      using up by (simp add: rd field_simps)
    then show ?thesis using up by (simp add: abs_mult)
  qed
  also have "\<dots> \<le> 1 / 2 * ulp"
    using round_half_even_error [of "x / ulp"] up by (intro mult_right_mono) auto
  finally have err: "\<bar>round_double x - x\<bar> \<le> ulp / 2" by simp
  have ulp_le: "ulp / 2 \<le> max (\<bar>x\<bar> / 2 ^ 53) (pow2 (- 1075))"
  proof (cases "binary_exponent \<bar>x\<bar> \<ge> - 1022")
    case True
    then have "e = binary_exponent \<bar>x\<bar>" by (simp add: e_def)
    then have "ulp = pow2 (binary_exponent \<bar>x\<bar>) / 2 ^ 52"
      by (simp add: ulp_def pow2_ulp)
    moreover have "pow2 (binary_exponent \<bar>x\<bar>) \<le> \<bar>x\<bar>"
      using binary_exponent_bounds [of "\<bar>x\<bar>"] False by simp
    ultimately have "ulp / 2 \<le> \<bar>x\<bar> / 2 ^ 53"
      by (simp add: field_simps)
    then show ?thesis by simp
  next
    case False
    then have "e = - 1022" by (simp add: e_def)
    then have "ulp = pow2 (- 1074)" by (simp add: ulp_def)
    also have "\<dots> = 2 * pow2 (- 1075)"
      using pow2_double [of "- 1075"] by simp
    finally show ?thesis by simp
  qed
  show ?thesis using err ulp_le by linarith
qed

lemma round_double_accurate:
  assumes "\<bar>x\<bar> \<le> 4000"
  shows "\<bar>round_double x - x\<bar> \<le> 1 / 10 ^ 12"
proof -
  have a: "\<bar>x\<bar> / 2 ^ 53 \<le> 1 / 10 ^ 12"
  proof -
    have "\<bar>x\<bar> / 2 ^ 53 \<le> 4000 / 2 ^ 53"
      using assms by (intro divide_right_mono) auto
    also have "\<dots> \<le> 1 / 10 ^ 12" by simp
    finally show ?thesis .
  qed
  have b: "pow2 (- 1075) \<le> 1 / 10 ^ 12"
  proof -
    have "pow2 (- 1075) \<le> pow2 (- 53)" by (rule pow2_mono) simp
    also have "\<dots> = 1 / 2 ^ 53" by (simp add: pow2_def)
    also have "\<dots> \<le> 1 / 10 ^ 12" by simp
    finally show ?thesis .
  qed
  show ?thesis using round_double_error [of x] a b by linarith
qed


lemma round_double_close:
  assumes "\<bar>x\<bar> \<le> 4000"
  shows "\<bar>round_double x - x\<bar> \<le> 1 / 1000000000000"
  using round_double_accurate [OF assms] by simp

lemma double_sum_close:
  assumes "\<bar>tw\<bar> \<le> 1000" and "\<bar>sw\<bar> \<le> 1000" and "\<bar>ew\<bar> \<le> 1000"
  shows "\<bar>round_double
            (round_double (round_double (round_double tw + round_double sw) + round_double ew)
             - 1)
          - (tw + sw + ew - 1)\<bar> \<le> 6 / 1000000000000"
proof -
  define a where "a = round_double tw"
  define b where "b = round_double sw"
  define c where "c = round_double ew"
  define s1 where "s1 = round_double (a + b)"
  define s2 where "s2 = round_double (s1 + c)"
  define d where "d = round_double (s2 - 1)"
  have a: "\<bar>a - tw\<bar> \<le> 1 / 1000000000000"
    unfolding a_def using assms(1) by (intro round_double_close) linarith
  have b: "\<bar>b - sw\<bar> \<le> 1 / 1000000000000"
    unfolding b_def using assms(2) by (intro round_double_close) linarith
  have c: "\<bar>c - ew\<bar> \<le> 1 / 1000000000000"
    unfolding c_def using assms(3) by (intro round_double_close) linarith
  have "\<bar>a + b\<bar> \<le> 4000" using a b assms by linarith
  then have s1: "\<bar>s1 - (a + b)\<bar> \<le> 1 / 1000000000000"
    unfolding s1_def by (rule round_double_close)
  have "\<bar>s1 + c\<bar> \<le> 4000" using a b c s1 assms by linarith
  then have s2: "\<bar>s2 - (s1 + c)\<bar> \<le> 1 / 1000000000000"
    unfolding s2_def by (rule round_double_close)
  have "\<bar>s2 - 1\<bar> \<le> 4000" using a b c s1 s2 assms by linarith
  then have d: "\<bar>d - (s2 - 1)\<bar> \<le> 1 / 1000000000000"
    unfolding d_def by (rule round_double_close)
  have "\<bar>d - (tw + sw + ew - 1)\<bar> \<le> 6 / 1000000000000"
    using a b c s1 s2 d by linarith
  then show ?thesis
    by (simp only: d_def s2_def s1_def a_def b_def c_def)
qed

lemma double_tolerance_close: "\<bar>round_double 0.001 - 0.001\<bar> \<le> 1 / 1000000000000"
  by (rule round_double_close) simp

lemma double_check_accepts:
  assumes "\<bar>tw\<bar> \<le> 1000" and "\<bar>sw\<bar> \<le> 1000" and "\<bar>ew\<bar> \<le> 1000"
    and "\<bar>tw + sw + ew - 1\<bar> \<le> 0.001 - 1 / 10 ^ 11"
  shows "update_strategy_weights_double tw sw ew cfg
      = (Inr (), cfg\<lparr>weights := \<lparr>technical = round_double tw, sentiment = round_double sw,
                                  events = round_double ew\<rparr>\<rparr>)"
proof -
  have m: "\<bar>tw + sw + ew - 1\<bar> \<le> 1 / 1000 - 10 / 1000000000000"
    using assms(4) by simp
  define k where "k = round_double 0.001"
  define d where "d = round_double
            (round_double (round_double (round_double tw + round_double sw) + round_double ew)
             - 1)"
  have k: "\<bar>k - 1 / 1000\<bar> \<le> 1 / 1000000000000"
    using double_tolerance_close by (simp add: k_def)
  have d: "\<bar>d - (tw + sw + ew - 1)\<bar> \<le> 6 / 1000000000000"
    unfolding d_def by (rule double_sum_close [OF assms(1-3)])
  have "\<not> \<bar>d\<bar> > k"
    using k d m by linarith
  then show ?thesis
    by (simp add: update_strategy_weights_double_def Let_def d_def k_def)
qed

lemma double_check_rejects:
  assumes "\<bar>tw\<bar> \<le> 1000" and "\<bar>sw\<bar> \<le> 1000" and "\<bar>ew\<bar> \<le> 1000"
    and "\<bar>tw + sw + ew - 1\<bar> \<ge> 0.001 + 1 / 10 ^ 11"
  shows "update_strategy_weights_double tw sw ew cfg
      = (Inl (ValueError ''Weights must sum to 1.0''), cfg)"
proof -
  have m: "\<bar>tw + sw + ew - 1\<bar> \<ge> 1 / 1000 + 10 / 1000000000000"
    using assms(4) by simp
  define k where "k = round_double 0.001"
  define d where "d = round_double
            (round_double (round_double (round_double tw + round_double sw) + round_double ew)
             - 1)"
  have k: "\<bar>k - 1 / 1000\<bar> \<le> 1 / 1000000000000"
    using double_tolerance_close by (simp add: k_def)
  have d: "\<bar>d - (tw + sw + ew - 1)\<bar> \<le> 6 / 1000000000000"
    unfolding d_def by (rule double_sum_close [OF assms(1-3)])
  have "\<bar>d\<bar> > k"
    using k d m by linarith
  then show ?thesis
    by (simp add: update_strategy_weights_double_def Let_def d_def k_def)
qed

lemma double_check_atomic:
  "update_strategy_weights_double tw sw ew cfg
      = (Inl (ValueError ''Weights must sum to 1.0''), cfg)
   \<or> update_strategy_weights_double tw sw ew cfg
      = (Inr (), cfg\<lparr>weights := \<lparr>technical = round_double tw, sentiment = round_double sw,
                                  events = round_double ew\<rparr>\<rparr>)"
  by (simp add: update_strategy_weights_double_def Let_def)

lemma double_check_agrees_with_exact:
  assumes "\<bar>tw\<bar> \<le> 1000" and "\<bar>sw\<bar> \<le> 1000" and "\<bar>ew\<bar> \<le> 1000"
    and "\<bar>tw + sw + ew - 1\<bar> \<le> 0.001 - 1 / 10 ^ 11
         \<or> \<bar>tw + sw + ew - 1\<bar> \<ge> 0.001 + 1 / 10 ^ 11"
  shows "fst (update_strategy_weights_double tw sw ew cfg)
      = fst (update_strategy_weights tw sw ew cfg)"
  using assms(4)
proof
  assume a: "\<bar>tw + sw + ew - 1\<bar> \<le> 0.001 - 1 / 10 ^ 11"
  then have "\<not> \<bar>tw + sw + ew - 1\<bar> > 0.001" by simp
  then show ?thesis
    using double_check_accepts [OF assms(1-3) a]
    by (simp add: update_strategy_weights_def Let_def)
next
  assume a: "\<bar>tw + sw + ew - 1\<bar> \<ge> 0.001 + 1 / 10 ^ 11"
  then have "\<bar>tw + sw + ew - 1\<bar> > 0.001" by simp
  then show ?thesis
    using double_check_rejects [OF assms(1-3) a]
    by (simp add: update_strategy_weights_def Let_def)
qed

lemma boundary_below_rejected:
  "update_strategy_weights_double 0.999 0 0 StrategyEngine_init
     = (Inl (ValueError ''Weights must sum to 1.0''), StrategyEngine_init)"
  by code_simp

lemma boundary_above_accepted:
  "fst (update_strategy_weights_double 0.3 0.3 0.401 StrategyEngine_init) = Inr ()"
  by code_simp

lemma out_of_range_accepted:
  "fst (update_strategy_weights_double 2 (- 1) 0 StrategyEngine_init) = Inr ()"
  by code_simp

lemma round_half_even_of_int: "round_half_even (real_of_int n) = n"
  by (simp add: round_half_even_def Let_def)

lemma pow2_diff: "pow2 a / pow2 b = pow2 (a - b)"
  by (simp add: pow2_powr powr_diff)

lemma pow2_add: "pow2 a * pow2 b = pow2 (a + b)"
  by (simp add: pow2_powr powr_add)

lemma pow2_less_iff: "pow2 a < pow2 b \<longleftrightarrow> a < b"
  by (simp add: pow2_powr)

lemma pow2_le_iff: "pow2 a \<le> pow2 b \<longleftrightarrow> a \<le> b"
  by (simp add: pow2_powr)

lemma pow2_nat: "pow2 (int n) = 2 ^ n"
  by (simp add: pow2_def)

lemma round_double_idem: "round_double (round_double x) = round_double x"
proof (cases "round_double x = 0")
  case True
  then show ?thesis by (simp add: round_double_def)
next
  case False
  then have x0: "x \<noteq> 0" by (auto simp: round_double_def)
  define e where "e = max (binary_exponent \<bar>x\<bar>) (- 1022)"
  define ulp where "ulp = pow2 (e - 52)"
  define m where "m = round_half_even (x / ulp)"
  define x' where "x' = round_double x"
  have up: "ulp > 0" by (simp add: ulp_def pow2_pos)
  have rd: "x' = real_of_int m * ulp"
    using x0 by (simp add: x'_def round_double_def Let_def e_def ulp_def m_def)
  have m0: "m \<noteq> 0" using False rd x'_def by auto
  have xb: "\<bar>x\<bar> < pow2 (e + 1)"
  proof -
    have "\<bar>x\<bar> < pow2 (binary_exponent \<bar>x\<bar> + 1)"
      using binary_exponent_bounds [of "\<bar>x\<bar>"] x0 by simp
    also have "\<dots> \<le> pow2 (e + 1)"
      by (rule pow2_mono) (simp add: e_def)
    finally show ?thesis .
  qed
  have q: "\<bar>x / ulp\<bar> < 2 ^ 53"
  proof -
    have "\<bar>x / ulp\<bar> = \<bar>x\<bar> / ulp" using up by simp
    also have "\<dots> < pow2 (e + 1) / ulp"
      using xb up by (rule divide_strict_right_mono)
    also have "\<dots> = pow2 53"
      unfolding ulp_def pow2_diff by simp
    also have "\<dots> = 2 ^ 53" by (simp add: pow2_def)
    finally show ?thesis .
  qed
  have mb: "\<bar>m\<bar> \<le> 2 ^ 53"
  proof -
    have "\<bar>real_of_int m - x / ulp\<bar> \<le> 1 / 2"
      unfolding m_def by (rule round_half_even_error)
    then have "\<bar>real_of_int m\<bar> < 2 ^ 53 + 1 / 2"
      using q by linarith
    then have "real_of_int \<bar>m\<bar> < real_of_int (2 ^ 53 + 1)"
      by simp
    then have "\<bar>m\<bar> < 2 ^ 53 + 1"
      by (simp only: of_int_less_iff)
    then show ?thesis by simp
  qed
  have x'0: "x' \<noteq> 0" using False by (simp add: x'_def)
  define e' where "e' = max (binary_exponent \<bar>x'\<bar>) (- 1022)"
  define ulp' where "ulp' = pow2 (e' - 52)"
  have up': "ulp' > 0" by (simp add: ulp'_def pow2_pos)
  have ax': "\<bar>x'\<bar> = real_of_int \<bar>m\<bar> * ulp"
    using up by (simp add: rd abs_mult)
  have e_lo: "- 1022 \<le> e" by (simp add: e_def)
  have ratio: "x' / ulp' = real_of_int m * pow2 (e - e')"
  proof -
    have "x' / ulp' = real_of_int m * (pow2 (e - 52) / pow2 (e' - 52))"
      by (simp add: rd ulp_def ulp'_def)
    then show ?thesis unfolding pow2_diff by simp
  qed
  have integral: "\<exists>n. x' / ulp' = real_of_int n"
  proof (cases "\<bar>m\<bar> = 2 ^ 53")
    case True
    have "\<bar>x'\<bar> = pow2 53 * pow2 (e - 52)"
      using ax' True by (simp add: ulp_def pow2_def)
    also have "\<dots> = pow2 (e + 1)"
      using pow2_add [of 53 "e - 52"] by (simp add: algebra_simps)
    finally have ax: "\<bar>x'\<bar> = pow2 (e + 1)" .
    have "pow2 (binary_exponent \<bar>x'\<bar>) \<le> pow2 (e + 1)
        \<and> pow2 (e + 1) < pow2 (binary_exponent \<bar>x'\<bar> + 1)"
      using binary_exponent_bounds [of "\<bar>x'\<bar>"] x'0 ax by simp
    then have "binary_exponent \<bar>x'\<bar> = e + 1"
      unfolding pow2_le_iff pow2_less_iff by linarith
    then have e': "e' = e + 1" using e_lo by (simp add: e'_def)
    have "pow2 (e - e') = 1 / 2"
      by (simp add: e' pow2_def)
    then have r: "x' / ulp' = real_of_int m / 2"
      using ratio by simp
    from True have "m = 2 ^ 53 \<or> m = - (2 ^ 53)" by linarith
    then show ?thesis
    proof
      assume "m = 2 ^ 53"
      then have "x' / ulp' = real_of_int (2 ^ 52)" using r by simp
      then show ?thesis ..
    next
      assume "m = - (2 ^ 53)"
      then have "x' / ulp' = real_of_int (- (2 ^ 52))" using r by simp
      then show ?thesis ..
    qed
  next
    case False
    then have "\<bar>m\<bar> < 2 ^ 53" using mb by simp
    then have "real_of_int \<bar>m\<bar> < real_of_int (2 ^ 53)"
      by (simp only: of_int_less_iff)
    then have "real_of_int \<bar>m\<bar> < pow2 53" by (simp add: pow2_def)
    then have "\<bar>x'\<bar> < pow2 53 * pow2 (e - 52)"
      unfolding ax' ulp_def using pow2_pos [of "e - 52"] by (rule mult_strict_right_mono)
    also have "\<dots> = pow2 (e + 1)"
      using pow2_add [of 53 "e - 52"] by (simp add: algebra_simps)
    finally have ax: "\<bar>x'\<bar> < pow2 (e + 1)" .
    have "pow2 (binary_exponent \<bar>x'\<bar>) \<le> \<bar>x'\<bar>"
      using binary_exponent_bounds [of "\<bar>x'\<bar>"] x'0 by simp
    then have "pow2 (binary_exponent \<bar>x'\<bar>) < pow2 (e + 1)"
      using ax by linarith
    then have "binary_exponent \<bar>x'\<bar> \<le> e"
      unfolding pow2_less_iff by simp
    then have "e' \<le> e" using e_lo by (simp add: e'_def)
    then obtain j where j: "e - e' = int j"
      using zero_le_imp_eq_int [of "e - e'"] by auto
    have "x' / ulp' = real_of_int (m * 2 ^ j)"
      unfolding ratio j pow2_nat by simp
    then show ?thesis ..
  qed
  then obtain n where n: "x' / ulp' = real_of_int n" ..
  have "round_double x' = real_of_int (round_half_even (x' / ulp')) * ulp'"
    using x'0 by (simp add: round_double_def Let_def e'_def ulp'_def)
  also have "\<dots> = real_of_int n * ulp'"
    unfolding n round_half_even_of_int ..
  also have "\<dots> = x' / ulp' * ulp'"
    unfolding n ..
  also have "\<dots> = x'"
    using up' by simp
  finally show ?thesis by (simp add: x'_def)
qed

lemma doubles_of_the_examples:
  "round_double 0.5 = 0.5" "round_double 0.25 = 0.25"
  by code_simp+

section \<open>Invariants of the configuration and of the scorers\<close>

lemma reachable_thresholds_ordered: "reachable e \<Longrightarrow> sell_threshold e < buy_threshold e"
proof (induction rule: reachable.induct)
  case reachable_init
  show ?case by (simp add: StrategyEngine_init_def)
next
  case (reachable_weights e tw sw ew e')
  then show ?case
    by (auto simp: update_strategy_weights_def Let_def split: if_splits)
next
  case (reachable_thresholds e b s e')
  then show ?case
    by (auto simp: update_thresholds_def split: if_splits)
qed

lemma moving_average_analysis_bound:
  assumes "moving_average_analysis rate m5 m20 (sc, f) = (sc', f')"
    and "\<bar>sc\<bar> \<le> 0.3 * real_of_int f" and "0 \<le> f"
  shows "\<bar>sc'\<bar> \<le> 0.3 * real_of_int f' \<and> f \<le> f'"
  using assms unfolding abs_le_iff
  by (cases m5; cases m20) (auto simp: Let_def split: if_splits)

lemma long_term_trend_bound:
  assumes "long_term_trend m20 m50 (sc, f) = (sc', f')"
    and "\<bar>sc\<bar> \<le> 0.3 * real_of_int f" and "0 \<le> f"
  shows "\<bar>sc'\<bar> \<le> 0.3 * real_of_int f' \<and> f \<le> f'"
  using assms unfolding abs_le_iff
  by (cases m20; cases m50) (auto simp: Let_def split: if_splits)

lemma trend_signal_bound:
  assumes "trend_signal trend (sc, f) = (sc', f')"
    and "\<bar>sc\<bar> \<le> 0.3 * real_of_int f" and "0 \<le> f"
  shows "\<bar>sc'\<bar> \<le> 0.3 * real_of_int f' \<and> f' = f + 1"
  using assms unfolding abs_le_iff
  by (auto simp: Let_def split: if_splits)

lemma technical_signals_bound:
  assumes "technical_signals td = (sc, f)"
  shows "\<bar>sc\<bar> \<le> 0.3 * real_of_int f \<and> 1 \<le> f"
proof -
  define rate where "rate = (case current_rate td of None \<Rightarrow> 0 | Some r \<Rightarrow> r)"
  define trend where "trend = (case trend_direction td of None \<Rightarrow> ''neutral'' | Some t \<Rightarrow> t)"
  obtain s1 f1 where a: "moving_average_analysis rate (moving_average_5 td) (moving_average_20 td) (0, 0) = (s1, f1)"
    by (cases "moving_average_analysis rate (moving_average_5 td) (moving_average_20 td) (0, 0)")
  obtain s2 f2 where b: "long_term_trend (moving_average_20 td) (moving_average_50 td) (s1, f1) = (s2, f2)"
    by (cases "long_term_trend (moving_average_20 td) (moving_average_50 td) (s1, f1)")
  have c: "trend_signal trend (s2, f2) = (sc, f)"
    using assms a b by (simp add: technical_signals_def Let_def rate_def trend_def)
  have 1: "\<bar>s1\<bar> \<le> 0.3 * real_of_int f1 \<and> 0 \<le> f1"
    using moving_average_analysis_bound [OF a] by simp
  have 2: "\<bar>s2\<bar> \<le> 0.3 * real_of_int f2 \<and> 0 \<le> f2"
    using long_term_trend_bound [OF b] 1 by auto
  show ?thesis
    using trend_signal_bound [OF c] 2 by auto
qed

lemma technical_signals_count: "1 \<le> snd (technical_signals td)"
  using technical_signals_bound [of td "fst (technical_signals td)" "snd (technical_signals td)"]
  by simp

lemma calculate_technical_score_eq:
  "calculate_technical_score td =
     max (- 1) (min 1 (fst (technical_signals td) / real_of_int (snd (technical_signals td))))"
  using technical_signals_count [of td]
  by (auto simp: calculate_technical_score_def Let_def split: prod.splits)

lemma calculate_technical_score_tight:
  "- 0.3 \<le> calculate_technical_score td \<and> calculate_technical_score td \<le> 0.3"
proof -
  obtain sc f where sf: "technical_signals td = (sc, f)"
    by (cases "technical_signals td")
  from technical_signals_bound [OF sf]
  have lo: "- (0.3 * real_of_int f) \<le> sc" and hi: "sc \<le> 0.3 * real_of_int f" and f: "1 \<le> f"
    by (auto simp: abs_le_iff)
  have pos: "0 < real_of_int f" using f by simp
  have q1: "sc / real_of_int f \<le> 0.3"
    using hi pos by (simp add: pos_divide_le_eq)
  have q2: "- 0.3 \<le> sc / real_of_int f"
    using lo pos by (simp add: pos_le_divide_eq)
  have eq: "calculate_technical_score td = max (- 1) (min 1 (sc / real_of_int f))"
    unfolding calculate_technical_score_eq sf by simp
  show ?thesis
    unfolding eq using q1 q2 by (intro conjI) linarith+
qed

lemma calculate_technical_score_range:
  "- 1 \<le> calculate_technical_score td \<and> calculate_technical_score td \<le> 1"
proof -
  have "- 0.3 \<le> calculate_technical_score td" and "calculate_technical_score td \<le> 0.3"
    using calculate_technical_score_tight [of td] by simp_all
  then show ?thesis by (intro conjI) linarith+
qed

lemma calculate_sentiment_score_range:
  "- 1 \<le> calculate_sentiment_score sd \<and> calculate_sentiment_score sd \<le> 1"
  by (simp add: calculate_sentiment_score_def Let_def)

lemma calculate_event_score_range:
  "- 1 \<le> calculate_event_score sd \<and> calculate_event_score sd \<le> 1"
  by (simp add: calculate_event_score_def Let_def)

lemma calculate_confidence_range:
  "0 \<le> calculate_confidence t s e \<and> calculate_confidence t s e \<le> 1"
  by (simp add: calculate_confidence_def Let_def)

lemma confidence_base_values:
  "confidence_base t s e \<in> {0.5, 0.6, 0.8, 0.9}"
  by (simp add: confidence_base_def Let_def)

lemma init_fields:
  "buy_threshold StrategyEngine_init = 0.6"
  "sell_threshold StrategyEngine_init = - 0.6"
  "weights StrategyEngine_init = \<lparr>technical = 0.4, sentiment = 0.3, events = 0.3\<rparr>"
  by (simp_all add: StrategyEngine_init_def)

section \<open>Reading the closing section: correctness\<close>

lemma has_prefix_append: "has_prefix m (m @ r)"
  by (induction m) auto

lemma contains_in_suffix: "has_prefix m F \<Longrightarrow> contains m (A @ F)"
proof (induction A)
  case Nil
  then show ?case by (cases F; cases m) auto
next
  case (Cons a A)
  then show ?case by simp
qed

lemma final_section_append:
  assumes "has_prefix final_marker (c # F)" and "\<not> contains final_marker F"
  shows "final_section (A @ c # F) = c # F"
proof (induction A)
  case Nil
  show ?case using assms by simp
next
  case (Cons a A)
  have "contains final_marker (A @ c # F)"
    using assms(1) by (rule contains_in_suffix)
  then show ?case using Cons by simp
qed

lemma final_reasoning_shape:
  "\<exists>F. final_reasoning label s = CHR ''*'' # F \<and> has_prefix final_marker (CHR ''*'' # F)
       \<and> \<not> contains final_marker F"
  by (cases label) (simp_all add: final_reasoning_def final_marker_def nl_def)

lemma final_section_generate_justification:
  "final_section (generate_justification pair label td sd t s e ov) = final_reasoning label s"
proof -
  obtain F where F: "final_reasoning label s = CHR ''*'' # F"
    "has_prefix final_marker (CHR ''*'' # F)" "\<not> contains final_marker F"
    using final_reasoning_shape by blast
  show ?thesis
    unfolding generate_justification_def F(1)
    using final_section_append [OF F(2) F(3)]
    by (metis append.assoc)
qed

section \<open>The code's confidence rule is the specification's\<close>

lemma confidence_base_refines: "confidence_base t s e = spec_confidence_base t s e"
  by (simp add: confidence_base_def spec_confidence_base_def classify_def Let_def)

lemma calculate_confidence_refines: "calculate_confidence t s e = spec_confidence t s e"
  by (simp add: calculate_confidence_def spec_confidence_def confidence_base_refines
      Let_def add.assoc)

section \<open>The fields of a recommendation\<close>

lemma generate_recommendation_fields:
  "technical_score (generate_recommendation cfg pair td sd rate) = calculate_technical_score td"
  "sentiment_score (generate_recommendation cfg pair td sd rate) = calculate_sentiment_score sd"
  "event_score (generate_recommendation cfg pair td sd rate) = calculate_event_score sd"
  "overall_score (generate_recommendation cfg pair td sd rate) =
     calculate_technical_score td * technical (weights cfg)
     + calculate_sentiment_score sd * sentiment (weights cfg)
     + calculate_event_score sd * events (weights cfg)"
  "recommendation (generate_recommendation cfg pair td sd rate) =
     determine_recommendation cfg
       (calculate_technical_score td * technical (weights cfg)
        + calculate_sentiment_score sd * sentiment (weights cfg)
        + calculate_event_score sd * events (weights cfg))"
  "confidence_score (generate_recommendation cfg pair td sd rate) =
     calculate_confidence (calculate_technical_score td) (calculate_sentiment_score sd)
       (calculate_event_score sd)"
  "justification (generate_recommendation cfg pair td sd rate) =
     generate_justification pair
       (determine_recommendation cfg
          (calculate_technical_score td * technical (weights cfg)
           + calculate_sentiment_score sd * sentiment (weights cfg)
           + calculate_event_score sd * events (weights cfg)))
       td sd (calculate_technical_score td) (calculate_sentiment_score sd)
       (calculate_event_score sd)
       (calculate_technical_score td * technical (weights cfg)
        + calculate_sentiment_score sd * sentiment (weights cfg)
        + calculate_event_score sd * events (weights cfg))"
  by (simp_all add: generate_recommendation_def Let_def)

lemma weighted_sum_bound:
  fixes t s e wt ws we :: real
  assumes "\<bar>t\<bar> \<le> 1" "\<bar>s\<bar> \<le> 1" "\<bar>e\<bar> \<le> 1"
  shows "\<bar>t * wt + s * ws + e * we\<bar> \<le> \<bar>wt\<bar> + \<bar>ws\<bar> + \<bar>we\<bar>"
proof -
  have a: "\<bar>t * wt\<bar> \<le> \<bar>wt\<bar>"
    using assms(1) by (simp add: abs_mult mult_left_le_one_le)
  have b: "\<bar>s * ws\<bar> \<le> \<bar>ws\<bar>"
    using assms(2) by (simp add: abs_mult mult_left_le_one_le)
  have c: "\<bar>e * we\<bar> \<le> \<bar>we\<bar>"
    using assms(3) by (simp add: abs_mult mult_left_le_one_le)
  show ?thesis using a b c by linarith
qed

lemma overall_score_bound:
  "\<bar>overall_score (generate_recommendation cfg pair td sd rate)\<bar>
     \<le> \<bar>technical (weights cfg)\<bar> + \<bar>sentiment (weights cfg)\<bar> + \<bar>events (weights cfg)\<bar>"
proof -
  have t: "\<bar>calculate_technical_score td\<bar> \<le> 1"
    using calculate_technical_score_range [of td] by (simp add: abs_le_iff)
  have s: "\<bar>calculate_sentiment_score sd\<bar> \<le> 1"
    using calculate_sentiment_score_range [of sd] by (simp add: abs_le_iff)
  have e: "\<bar>calculate_event_score sd\<bar> \<le> 1"
    using calculate_event_score_range [of sd] by (simp add: abs_le_iff)
  show ?thesis
    unfolding generate_recommendation_fields by (rule weighted_sum_bound [OF t s e])
qed

lemma reachable_weights_sum:
  "reachable e \<Longrightarrow>
     \<bar>technical (weights e) + sentiment (weights e) + events (weights e) - 1\<bar> \<le> 0.001"
proof (induction rule: reachable.induct)
  case reachable_init
  show ?case by (simp add: StrategyEngine_init_def)
next
  case (reachable_weights e tw sw ew e')
  then show ?case
    by (auto simp: update_strategy_weights_def Let_def split: if_splits)
next
  case (reachable_thresholds e b s e')
  then show ?case
    by (auto simp: update_thresholds_def split: if_splits)
qed

lemma growth_event_lower:
  "any_keyword [''rate cut'', ''stimulus'', ''growth'']
     (lower ''Growth mentioned in: GDP beats forecast...'')"
  by code_simp

lemma growth_news_scores:
  "calculate_sentiment_score growth_news = 1"
  "calculate_event_score growth_news = 1"
  by (simp_all add: growth_news_def calculate_sentiment_score_def calculate_event_score_def
      growth_event_lower Let_def numeral_eq_Suc)

lemma reweighted_engine_fields:
  "update_strategy_weights 0.0 0.5005 0.5005 StrategyEngine_init = (Inr (), reweighted_engine)"
  "weights reweighted_engine = \<lparr>technical = 0, sentiment = 0.5005, events = 0.5005\<rparr>"
  by (simp_all add: reweighted_engine_def update_strategy_weights_def Let_def)

lemma calculate_moving_averages_returns: "\<exists>d. calculate_moving_averages rows = Inr d"
  by (simp add: calculate_moving_averages_def Let_def)

lemma four_closes_sorted:
  "map snd (sort_key fst four_closes) = [1.0850, 1.0862, 1.0871, 1.0880]"
  by (simp add: four_closes_def less_eq_prod_def less_prod_def)

section \<open>The closing section of a recommendation\<close>

lemma upward_snapshot_score: "calculate_technical_score upward_snapshot = 0.3"
  by (simp add: calculate_technical_score_def technical_signals_def upward_snapshot_def)

lemma flat_news_scores:
  "calculate_sentiment_score flat_news = 0"
  "calculate_event_score flat_news = 0"
  by (simp_all add: flat_news_def calculate_sentiment_score_def calculate_event_score_def)

lemma positive_news_scores:
  "calculate_sentiment_score positive_news = 0.5"
  "calculate_event_score positive_news = 0"
  by (simp_all add: positive_news_def calculate_sentiment_score_def calculate_event_score_def)

lemma narrow_engine_fields:
  "update_thresholds 0.1 (- 0.1) StrategyEngine_init = (Inr (), narrow_engine)"
  "buy_threshold narrow_engine = 0.1"
  "sell_threshold narrow_engine = - 0.1"
  "weights narrow_engine = \<lparr>technical = 0.4, sentiment = 0.3, events = 0.3\<rparr>"
  by (simp_all add: narrow_engine_def update_thresholds_def StrategyEngine_init_def)

lemma final_section_of_result:
  "final_section (justification (generate_recommendation cfg pair td sd rate))
     = final_reasoning (recommendation (generate_recommendation cfg pair td sd rate))
         (sentiment_score (generate_recommendation cfg pair td sd rate))"
  by (simp add: generate_recommendation_fields final_section_generate_justification)

lemma final_reasoning_differs:
  "final_reasoning BUY 0 \<noteq> final_reasoning BUY 0.5"
  by (simp add: final_reasoning_def nl_def)

lemma default_buy_needs_positive_sentiment:
  assumes "recommendation (generate_recommendation StrategyEngine_init pair td sd rate) = BUY"
  shows "calculate_sentiment_score sd > 0"
proof -
  have t: "calculate_technical_score td \<le> 3 / 10"
    using calculate_technical_score_tight [of td] by simp
  have e: "calculate_event_score sd \<le> 1"
    using calculate_event_score_range [of sd] by simp
  have "calculate_technical_score td * (4 / 10) + calculate_sentiment_score sd * (3 / 10)
          + calculate_event_score sd * (3 / 10) \<ge> 6 / 10"
    using assms
    by (simp add: generate_recommendation_fields determine_recommendation_def init_fields
        split: if_splits)
  then show ?thesis using t e by linarith
qed

lemma default_sell_needs_negative_sentiment:
  assumes "recommendation (generate_recommendation StrategyEngine_init pair td sd rate) = SELL"
  shows "calculate_sentiment_score sd < 0"
proof -
  have t: "- (3 / 10) \<le> calculate_technical_score td"
    using calculate_technical_score_tight [of td] by simp
  have e: "- 1 \<le> calculate_event_score sd"
    using calculate_event_score_range [of sd] by simp
  have "calculate_technical_score td * (4 / 10) + calculate_sentiment_score sd * (3 / 10)
          + calculate_event_score sd * (3 / 10) \<le> - (6 / 10)"
    using assms
    by (simp add: generate_recommendation_fields determine_recommendation_def init_fields
        split: if_splits)
  then show ?thesis using t e by linarith
qed

lemma final_reasoning_cases:
  "final_reasoning HOLD s = final_reasoning HOLD s'"
  "(s > 0) = (s' > 0) \<Longrightarrow> final_reasoning BUY s = final_reasoning BUY s'"
  "(s < 0) = (s' < 0) \<Longrightarrow> final_reasoning SELL s = final_reasoning SELL s'"
  by (simp_all add: final_reasoning_def)

section \<open>The claims\<close>

text \<open>
  Claim C1. In every configuration the update operations can reach, classification is
  the three-way inclusive threshold rule: BUY when the overall score is at least the buy
  threshold, SELL when it is at most the sell threshold, HOLD strictly between the two.
  A score that ties with a threshold gets the directional label, and with the initial
  thresholds 0.6 and -0.6 the scores 0.6, -0.6 and 0.599999 give BUY, SELL and HOLD.
\<close>

theorem threshold_classification:
  assumes "reachable cfg"
  shows "(x \<ge> buy_threshold cfg \<longrightarrow> determine_recommendation cfg x = BUY)
       \<and> (x \<le> sell_threshold cfg \<longrightarrow> determine_recommendation cfg x = SELL)
       \<and> (sell_threshold cfg < x \<and> x < buy_threshold cfg
            \<longrightarrow> determine_recommendation cfg x = HOLD)
       \<and> determine_recommendation cfg (buy_threshold cfg) = BUY
       \<and> determine_recommendation cfg (sell_threshold cfg) = SELL
       \<and> determine_recommendation StrategyEngine_init 0.6 = BUY
       \<and> determine_recommendation StrategyEngine_init (- 0.6) = SELL
       \<and> determine_recommendation StrategyEngine_init 0.599999 = HOLD"
  using reachable_thresholds_ordered [OF assms]
  by (simp add: determine_recommendation_def init_fields)

theorem threshold_classification_witness:
  "reachable StrategyEngine_init
   \<and> (0.7::real) \<ge> buy_threshold StrategyEngine_init
   \<and> determine_recommendation StrategyEngine_init 0.7 = BUY
   \<and> (- 0.7::real) \<le> sell_threshold StrategyEngine_init
   \<and> determine_recommendation StrategyEngine_init (- 0.7) = SELL
   \<and> sell_threshold StrategyEngine_init < 0.2 \<and> 0.2 < buy_threshold StrategyEngine_init
   \<and> determine_recommendation StrategyEngine_init 0.2 = HOLD"
  using threshold_classification [OF reachable_init, of "0.7"]
    threshold_classification [OF reachable_init, of "- 0.7"]
    threshold_classification [OF reachable_init, of "0.2"]
  by (simp add: init_fields reachable_init)

text \<open>
  Claim C9. For factor scores in [-1, 1] the confidence lies in [0.25, 0.9]: the base is
  between 0.5 and 0.9, the magnitude multiplier between 0.5 and 1, and the final clamp to
  [0, 1] never changes the product.
\<close>

theorem confidence_tight_range:
  assumes "- 1 \<le> t \<and> t \<le> 1" and "- 1 \<le> s \<and> s \<le> 1" and "- 1 \<le> e \<and> e \<le> 1"
  shows "0.25 \<le> calculate_confidence t s e \<and> calculate_confidence t s e \<le> 0.9
       \<and> 0.5 \<le> confidence_base t s e \<and> confidence_base t s e \<le> 0.9
       \<and> 0.5 \<le> 0.5 + (\<bar>t\<bar> + \<bar>s\<bar> + \<bar>e\<bar>) / 3 * 0.5
       \<and> 0.5 + (\<bar>t\<bar> + \<bar>s\<bar> + \<bar>e\<bar>) / 3 * 0.5 \<le> 1
       \<and> calculate_confidence t s e
           = confidence_base t s e * (0.5 + (\<bar>t\<bar> + \<bar>s\<bar> + \<bar>e\<bar>) / 3 * 0.5)"
proof -
  define b where "b = confidence_base t s e"
  define q where "q = \<bar>t\<bar> + \<bar>s\<bar> + \<bar>e\<bar>"
  define m where "m = 0.5 + q / 3 * 0.5"
  have b: "0.5 \<le> b \<and> b \<le> 0.9"
    using confidence_base_values [of t s e] unfolding b_def by auto
  have q: "0 \<le> q \<and> q \<le> 3"
    using assms unfolding q_def by (intro conjI) linarith+
  have m: "0.5 \<le> m \<and> m \<le> 1"
    using q unfolding m_def by simp
  have lo: "0.25 \<le> b * m"
  proof -
    have "0.5 * 0.5 \<le> b * m"
      using b m by (intro mult_mono) auto
    then show ?thesis by simp
  qed
  have hi: "b * m \<le> 0.9"
  proof -
    have "b * m \<le> 0.9 * 1"
      using b m by (intro mult_mono) auto
    then show ?thesis by simp
  qed
  have eq: "calculate_confidence t s e = max 0 (min 1 (b * m))"
    by (simp add: calculate_confidence_def Let_def b_def m_def q_def add.assoc)
  have eq': "calculate_confidence t s e = b * m"
    unfolding eq using lo hi by (simp add: max_def min_def)
  show ?thesis
    using b m lo hi eq' unfolding b_def m_def q_def by simp
qed

theorem confidence_tight_range_witness:
  "(- 1 \<le> (0.25::real) \<and> (0.25::real) \<le> 1) \<and> (- 1 \<le> (0.6::real) \<and> (0.6::real) \<le> 1)
   \<and> (- 1 \<le> (0.2::real) \<and> (0.2::real) \<le> 1)
   \<and> 0.25 \<le> calculate_confidence 0.25 0.6 0.2 \<and> calculate_confidence 0.25 0.6 0.2 \<le> 0.9"
  using confidence_tight_range [of "0.25" "0.6" "0.2"] by simp

text \<open>
  Claim C10. For every technical input the divisor of the normalisation is at least 1,
  because the trend signal is counted unconditionally; the technical score is therefore
  always the clamped quotient, never a division by zero, and for a snapshot with every
  field absent (also with the trend label \<open>unknown\<close>) the accumulator is 0.0, the count 1
  and the score \<open>0.0 / 1\<close>.
\<close>

theorem signal_count_positive:
  "1 \<le> snd (technical_signals td)
   \<and> calculate_technical_score td =
       max (- 1) (min 1 (fst (technical_signals td) / real_of_int (snd (technical_signals td))))
   \<and> technical_signals empty_dict = (0, 1)
   \<and> technical_signals (empty_dict\<lparr>trend_direction := Some ''unknown''\<rparr>) = (0, 1)
   \<and> calculate_technical_score empty_dict = 0 / 1
   \<and> calculate_technical_score (empty_dict\<lparr>trend_direction := Some ''unknown''\<rparr>) = 0 / 1"
proof -
  have a: "technical_signals empty_dict = (0, 1)"
    by (simp add: technical_signals_def empty_dict_def)
  have b: "technical_signals (empty_dict\<lparr>trend_direction := Some ''unknown''\<rparr>) = (0, 1)"
    by (simp add: technical_signals_def empty_dict_def)
  show ?thesis
    using technical_signals_count [of td] calculate_technical_score_eq [of td]
    by (simp add: a b calculate_technical_score_def)
qed

text \<open>
  Claim C2, as stated, fails: \<open>update_strategy_weights(0.0, 0.5005, 0.5005)\<close> passes the
  check (the sum is within 0.001 of 1.0, and each weight is even in [0, 1]), and in the
  configuration it leaves, a snapshot with sentiment score 1 and event score 1 has the
  overall score 1.001, outside [-1, 1].
\<close>

theorem overall_score_counterexample:
  "reachable reweighted_engine
   \<and> 0 \<le> technical (weights reweighted_engine) \<and> technical (weights reweighted_engine) \<le> 1
   \<and> 0 \<le> sentiment (weights reweighted_engine) \<and> sentiment (weights reweighted_engine) \<le> 1
   \<and> 0 \<le> events (weights reweighted_engine) \<and> events (weights reweighted_engine) \<le> 1
   \<and> overall_score (generate_recommendation reweighted_engine ''EUR/USD'' upward_snapshot
        growth_news 1.1) = 1.001
   \<and> \<not> overall_score (generate_recommendation reweighted_engine ''EUR/USD'' upward_snapshot
        growth_news 1.1) \<le> 1"
proof -
  have r: "reachable reweighted_engine"
    using reachable_weights [OF reachable_init reweighted_engine_fields(1)] .
  show ?thesis
    using r by (simp add: generate_recommendation_fields growth_news_scores reweighted_engine_fields(2))
qed

text \<open>
  Claim C2, amended. For every snapshot and every configuration, the technical, sentiment
  and event scores returned by \<open>generate_recommendation\<close> lie in [-1, 1] and the
  confidence in [0, 1]. The overall score is bounded in absolute value by the sum of the
  absolute weights; it lies in [-1, 1] whenever the weights are non-negative and sum to at
  most 1 (as the initial weights do), and within 1.001 of zero in a reachable configuration
  with non-negative weights.
\<close>

theorem score_ranges:
  "- 1 \<le> technical_score (generate_recommendation cfg pair td sd rate)
   \<and> technical_score (generate_recommendation cfg pair td sd rate) \<le> 1
   \<and> - 1 \<le> sentiment_score (generate_recommendation cfg pair td sd rate)
   \<and> sentiment_score (generate_recommendation cfg pair td sd rate) \<le> 1
   \<and> - 1 \<le> event_score (generate_recommendation cfg pair td sd rate)
   \<and> event_score (generate_recommendation cfg pair td sd rate) \<le> 1
   \<and> 0 \<le> confidence_score (generate_recommendation cfg pair td sd rate)
   \<and> confidence_score (generate_recommendation cfg pair td sd rate) \<le> 1
   \<and> \<bar>overall_score (generate_recommendation cfg pair td sd rate)\<bar>
        \<le> \<bar>technical (weights cfg)\<bar> + \<bar>sentiment (weights cfg)\<bar> + \<bar>events (weights cfg)\<bar>
   \<and> (0 \<le> technical (weights cfg) \<and> 0 \<le> sentiment (weights cfg) \<and> 0 \<le> events (weights cfg)
        \<and> technical (weights cfg) + sentiment (weights cfg) + events (weights cfg) \<le> 1
      \<longrightarrow> - 1 \<le> overall_score (generate_recommendation cfg pair td sd rate)
          \<and> overall_score (generate_recommendation cfg pair td sd rate) \<le> 1)
   \<and> (reachable cfg
        \<and> 0 \<le> technical (weights cfg) \<and> 0 \<le> sentiment (weights cfg) \<and> 0 \<le> events (weights cfg)
      \<longrightarrow> \<bar>overall_score (generate_recommendation cfg pair td sd rate)\<bar> \<le> 1.001)"
proof -
  let ?r = "generate_recommendation cfg pair td sd rate"
  have t: "- 1 \<le> technical_score ?r \<and> technical_score ?r \<le> 1"
    unfolding generate_recommendation_fields by (rule calculate_technical_score_range)
  have s: "- 1 \<le> sentiment_score ?r \<and> sentiment_score ?r \<le> 1"
    unfolding generate_recommendation_fields by (rule calculate_sentiment_score_range)
  have e: "- 1 \<le> event_score ?r \<and> event_score ?r \<le> 1"
    unfolding generate_recommendation_fields by (rule calculate_event_score_range)
  have c: "0 \<le> confidence_score ?r \<and> confidence_score ?r \<le> 1"
    unfolding generate_recommendation_fields by (rule calculate_confidence_range)
  have ov: "\<bar>overall_score ?r\<bar>
      \<le> \<bar>technical (weights cfg)\<bar> + \<bar>sentiment (weights cfg)\<bar> + \<bar>events (weights cfg)\<bar>"
    by (rule overall_score_bound)
  have unit: "- 1 \<le> overall_score ?r \<and> overall_score ?r \<le> 1"
    if "0 \<le> technical (weights cfg) \<and> 0 \<le> sentiment (weights cfg) \<and> 0 \<le> events (weights cfg)
        \<and> technical (weights cfg) + sentiment (weights cfg) + events (weights cfg) \<le> 1"
    using ov that by (intro conjI) linarith+
  have near: "\<bar>overall_score ?r\<bar> \<le> 1.001"
    if "reachable cfg
        \<and> 0 \<le> technical (weights cfg) \<and> 0 \<le> sentiment (weights cfg) \<and> 0 \<le> events (weights cfg)"
  proof -
    have "\<bar>technical (weights cfg) + sentiment (weights cfg) + events (weights cfg) - 1\<bar>
        \<le> 1 / 1000"
      using that reachable_weights_sum [of cfg] by simp
    then have "\<bar>overall_score ?r\<bar> \<le> 1001 / 1000"
      using ov that by linarith
    then show ?thesis by simp
  qed
  show ?thesis
    using t s e c ov unit near by blast
qed

theorem score_ranges_witness:
  "0 \<le> technical (weights StrategyEngine_init) \<and> 0 \<le> sentiment (weights StrategyEngine_init)
   \<and> 0 \<le> events (weights StrategyEngine_init)
   \<and> technical (weights StrategyEngine_init) + sentiment (weights StrategyEngine_init)
       + events (weights StrategyEngine_init) \<le> 1
   \<and> reachable StrategyEngine_init
   \<and> - 1 \<le> overall_score (generate_recommendation StrategyEngine_init ''EUR/USD''
               upward_snapshot growth_news 1.1)
   \<and> overall_score (generate_recommendation StrategyEngine_init ''EUR/USD''
        upward_snapshot growth_news 1.1) \<le> 1
   \<and> \<bar>overall_score (generate_recommendation StrategyEngine_init ''EUR/USD''
        upward_snapshot growth_news 1.1)\<bar> \<le> 1.001"
proof -
  have w: "0 \<le> technical (weights StrategyEngine_init) \<and> 0 \<le> sentiment (weights StrategyEngine_init)
     \<and> 0 \<le> events (weights StrategyEngine_init)
     \<and> technical (weights StrategyEngine_init) + sentiment (weights StrategyEngine_init)
         + events (weights StrategyEngine_init) \<le> 1"
    by (simp add: init_fields)
  show ?thesis
    using w reachable_init
      score_ranges [of StrategyEngine_init "''EUR/USD''" upward_snapshot growth_news "1.1"]
    by blast
qed

text \<open>
  Claim C4, as stated, fails: \<open>update_strategy_weights(2, -1, 0)\<close> succeeds although two
  of the weights are outside [0, 1]; the method checks the sum only.
\<close>

theorem update_weights_counterexample:
  "fst (update_strategy_weights 2 (- 1) 0 StrategyEngine_init) = Inr ()
   \<and> weights (snd (update_strategy_weights 2 (- 1) 0 StrategyEngine_init))
       = \<lparr>technical = 2, sentiment = - 1, events = 0\<rparr>
   \<and> \<not> ((0::real) \<le> 2 \<and> (2::real) \<le> 1)
   \<and> \<not> ((0::real) \<le> - 1 \<and> (- 1::real) \<le> 1)"
  by (simp add: update_strategy_weights_def Let_def)

text \<open>
  Claim C4, amended. \<open>update_strategy_weights\<close> checks only the sum of the three weights,
  computed in double precision, against 1.0 with tolerance 0.001; the single weights are
  not range-checked. For weights of magnitude at most 1000 the call succeeds whenever the
  exact sum is within \<open>0.001 - 1e-11\<close> of 1.0 and is rejected whenever it is at least
  \<open>0.001 + 1e-11\<close> away; in between, the outcome is the one of the double arithmetic
  (\<open>(0.999, 0, 0)\<close> is rejected, \<open>(0.3, 0.3, 0.401)\<close> accepted). \<open>update_thresholds\<close>
  succeeds exactly when the buy threshold is greater than the sell threshold. A
  successful call stores exactly the floats it was given and leaves the other fields
  alone; a rejected call raises \<open>ValueError\<close> and leaves the whole configuration as it
  was.
\<close>

theorem updates_validated_atomic:
  "(\<bar>tw\<bar> \<le> 1000 \<and> \<bar>sw\<bar> \<le> 1000 \<and> \<bar>ew\<bar> \<le> 1000
      \<and> \<bar>tw + sw + ew - 1\<bar> \<le> 0.001 - 1 / 10 ^ 11
    \<longrightarrow> fst (update_strategy_weights_double tw sw ew cfg) = Inr ())
   \<and> (\<bar>tw\<bar> \<le> 1000 \<and> \<bar>sw\<bar> \<le> 1000 \<and> \<bar>ew\<bar> \<le> 1000
      \<and> \<bar>tw + sw + ew - 1\<bar> \<ge> 0.001 + 1 / 10 ^ 11
    \<longrightarrow> fst (update_strategy_weights_double tw sw ew cfg)
          = Inl (ValueError ''Weights must sum to 1.0''))
   \<and> (update_strategy_weights_double tw sw ew cfg
          = (Inl (ValueError ''Weights must sum to 1.0''), cfg)
        \<or> update_strategy_weights_double tw sw ew cfg
          = (Inr (), cfg\<lparr>weights := \<lparr>technical = round_double tw,
                                      sentiment = round_double sw,
                                      events = round_double ew\<rparr>\<rparr>))
   \<and> round_double (round_double tw) = round_double tw
   \<and> (round_double tw = tw \<and> round_double sw = sw \<and> round_double ew = ew
    \<longrightarrow> update_strategy_weights_double tw sw ew cfg
          = (Inl (ValueError ''Weights must sum to 1.0''), cfg)
        \<or> update_strategy_weights_double tw sw ew cfg
          = (Inr (), cfg\<lparr>weights := \<lparr>technical = tw, sentiment = sw, events = ew\<rparr>\<rparr>))
   \<and> (fst (update_thresholds b s cfg) = Inr ()) = (b > s)
   \<and> (b > s \<longrightarrow>
        update_thresholds b s cfg = (Inr (), cfg\<lparr>buy_threshold := b, sell_threshold := s\<rparr>))
   \<and> (\<not> b > s \<longrightarrow>
        update_thresholds b s cfg
          = (Inl (ValueError ''Buy threshold must be greater than sell threshold''), cfg))
   \<and> update_strategy_weights_double 0.999 0 0 StrategyEngine_init
        = (Inl (ValueError ''Weights must sum to 1.0''), StrategyEngine_init)
   \<and> fst (update_strategy_weights_double 0.3 0.3 0.401 StrategyEngine_init) = Inr ()
   \<and> fst (update_strategy_weights_double 2 (- 1) 0 StrategyEngine_init) = Inr ()"
proof -
  have acc: "fst (update_strategy_weights_double tw sw ew cfg) = Inr ()"
    if "\<bar>tw\<bar> \<le> 1000 \<and> \<bar>sw\<bar> \<le> 1000 \<and> \<bar>ew\<bar> \<le> 1000
        \<and> \<bar>tw + sw + ew - 1\<bar> \<le> 0.001 - 1 / 10 ^ 11"
    using double_check_accepts [of tw sw ew cfg] that by simp
  have rej: "fst (update_strategy_weights_double tw sw ew cfg)
        = Inl (ValueError ''Weights must sum to 1.0'')"
    if "\<bar>tw\<bar> \<le> 1000 \<and> \<bar>sw\<bar> \<le> 1000 \<and> \<bar>ew\<bar> \<le> 1000
        \<and> \<bar>tw + sw + ew - 1\<bar> \<ge> 0.001 + 1 / 10 ^ 11"
    using double_check_rejects [of tw sw ew cfg] that by simp
  have given: "update_strategy_weights_double tw sw ew cfg
          = (Inl (ValueError ''Weights must sum to 1.0''), cfg)
        \<or> update_strategy_weights_double tw sw ew cfg
          = (Inr (), cfg\<lparr>weights := \<lparr>technical = tw, sentiment = sw, events = ew\<rparr>\<rparr>)"
    if "round_double tw = tw \<and> round_double sw = sw \<and> round_double ew = ew"
    using double_check_atomic [of tw sw ew cfg] that by simp
  have thr: "(fst (update_thresholds b s cfg) = Inr ()) = (b > s)
   \<and> (b > s \<longrightarrow>
        update_thresholds b s cfg = (Inr (), cfg\<lparr>buy_threshold := b, sell_threshold := s\<rparr>))
   \<and> (\<not> b > s \<longrightarrow>
        update_thresholds b s cfg
          = (Inl (ValueError ''Buy threshold must be greater than sell threshold''), cfg))"
    by (simp add: update_thresholds_def)
  show ?thesis
    using acc rej given thr double_check_atomic [of tw sw ew cfg] round_double_idem [of tw]
      boundary_below_rejected boundary_above_accepted out_of_range_accepted
    by blast
qed

theorem updates_validated_atomic_witness:
  "\<bar>0.4::real\<bar> \<le> 1000 \<and> \<bar>0.2::real\<bar> \<le> 1000
   \<and> \<bar>(0.4::real) + 0.4 + 0.2 - 1\<bar> \<le> 0.001 - 1 / 10 ^ 11
   \<and> fst (update_strategy_weights_double 0.4 0.4 0.2 StrategyEngine_init) = Inr ()
   \<and> \<bar>0.5::real\<bar> \<le> 1000
   \<and> \<bar>(0.5::real) + 0.5 + 0.5 - 1\<bar> \<ge> 0.001 + 1 / 10 ^ 11
   \<and> update_strategy_weights_double 0.5 0.5 0.5 StrategyEngine_init
       = (Inl (ValueError ''Weights must sum to 1.0''), StrategyEngine_init)
   \<and> round_double 0.5 = 0.5 \<and> round_double 0.25 = 0.25
   \<and> update_strategy_weights_double 0.5 0.25 0.25 StrategyEngine_init
       = (Inr (), StrategyEngine_init\<lparr>weights :=
            \<lparr>technical = 0.5, sentiment = 0.25, events = 0.25\<rparr>\<rparr>)
   \<and> (0.7::real) > - 0.7
   \<and> update_thresholds 0.7 (- 0.7) StrategyEngine_init
       = (Inr (), StrategyEngine_init\<lparr>buy_threshold := 0.7, sell_threshold := - 0.7\<rparr>)
   \<and> \<not> (0.2::real) > 0.2
   \<and> update_thresholds 0.2 0.2 StrategyEngine_init
       = (Inl (ValueError ''Buy threshold must be greater than sell threshold''),
          StrategyEngine_init)"
proof -
  note a = updates_validated_atomic [of "0.4" "0.4" "0.2" StrategyEngine_init "0.7" "- 0.7"]
  note b = updates_validated_atomic [of "0.5" "0.5" "0.5" StrategyEngine_init "0.2" "0.2"]
  note c = updates_validated_atomic [of "0.5" "0.25" "0.25" StrategyEngine_init "0.7" "- 0.7"]
  have h1: "\<bar>0.4::real\<bar> \<le> 1000 \<and> \<bar>0.4::real\<bar> \<le> 1000 \<and> \<bar>0.2::real\<bar> \<le> 1000
      \<and> \<bar>(0.4::real) + 0.4 + 0.2 - 1\<bar> \<le> 0.001 - 1 / 10 ^ 11"
    by simp
  have h2: "\<bar>0.5::real\<bar> \<le> 1000 \<and> \<bar>0.5::real\<bar> \<le> 1000 \<and> \<bar>0.5::real\<bar> \<le> 1000
      \<and> \<bar>(0.5::real) + 0.5 + 0.5 - 1\<bar> \<ge> 0.001 + 1 / 10 ^ 11"
    by simp
  have h3: "\<bar>0.5::real\<bar> \<le> 1000 \<and> \<bar>0.25::real\<bar> \<le> 1000 \<and> \<bar>0.25::real\<bar> \<le> 1000
      \<and> \<bar>(0.5::real) + 0.25 + 0.25 - 1\<bar> \<le> 0.001 - 1 / 10 ^ 11"
    by simp
  have d: "round_double 0.5 = 0.5 \<and> round_double 0.25 = 0.25 \<and> round_double 0.25 = 0.25"
    using doubles_of_the_examples by simp
  have r1: "fst (update_strategy_weights_double 0.4 0.4 0.2 StrategyEngine_init) = Inr ()"
    using a h1 by blast
  have r2: "update_strategy_weights_double 0.5 0.5 0.5 StrategyEngine_init
       = (Inl (ValueError ''Weights must sum to 1.0''), StrategyEngine_init)"
    using b h2 by (metis fst_conv sum.distinct(1))
  have r3a: "fst (update_strategy_weights_double 0.5 0.25 0.25 StrategyEngine_init) = Inr ()"
    using c h3 by blast
  have r3b: "update_strategy_weights_double 0.5 0.25 0.25 StrategyEngine_init
          = (Inl (ValueError ''Weights must sum to 1.0''), StrategyEngine_init)
        \<or> update_strategy_weights_double 0.5 0.25 0.25 StrategyEngine_init
          = (Inr (), StrategyEngine_init\<lparr>weights :=
               \<lparr>technical = 0.5, sentiment = 0.25, events = 0.25\<rparr>\<rparr>)"
    using c d by blast
  have r3: "update_strategy_weights_double 0.5 0.25 0.25 StrategyEngine_init
       = (Inr (), StrategyEngine_init\<lparr>weights :=
            \<lparr>technical = 0.5, sentiment = 0.25, events = 0.25\<rparr>\<rparr>)"
    using r3a r3b by (metis fst_conv sum.distinct(1))
  have t1: "update_thresholds 0.7 (- 0.7) StrategyEngine_init
       = (Inr (), StrategyEngine_init\<lparr>buy_threshold := 0.7, sell_threshold := - 0.7\<rparr>)"
    using a by simp
  have t2: "update_thresholds 0.2 0.2 StrategyEngine_init
       = (Inl (ValueError ''Buy threshold must be greater than sell threshold''),
          StrategyEngine_init)"
    using b by simp
  show ?thesis
    using h1 h2 d r1 r2 r3 t1 t2 by simp
qed

text \<open>
  Claim C5, as stated, fails in its example: for the scores (0.25, 0.6, 0.2) all three are
  positive, so the base is 0.8 + 0.1 * (3 - 2) = 0.9 and the confidence 0.6075, not 0.54.
\<close>

theorem confidence_example_counterexample:
  "calculate_confidence 0.25 0.6 0.2 = 0.6075 \<and> calculate_confidence 0.25 0.6 0.2 \<noteq> 0.54"
  by (simp add: calculate_confidence_def confidence_base_def Let_def)

text \<open>
  Claim C5, amended. For every triple of factor scores the confidence of the code is the
  one of the specification's rule: base times \<open>0.5 + 0.5 * mean of the absolute scores\<close>,
  clamped to [0, 1], with the base chosen from the counts of positive (> 0.1), negative
  (< -0.1) and neutral scores. For (0.25, 0.6, 0.2) the base is 0.9 and the confidence
  0.9 * 0.675 = 0.6075.
\<close>

theorem confidence_formula:
  "calculate_confidence t s e = spec_confidence t s e
   \<and> calculate_confidence t s e
       = max 0 (min 1 (confidence_base t s e * (0.5 + 0.5 * ((\<bar>t\<bar> + \<bar>s\<bar> + \<bar>e\<bar>) / 3))))
   \<and> confidence_base t s e = spec_confidence_base t s e
   \<and> confidence_base 0.25 0.6 0.2 = 0.9
   \<and> calculate_confidence 0.25 0.6 0.2 = 0.9 * 0.675
   \<and> calculate_confidence 0.25 0.6 0.2 = 0.6075"
proof -
  have a: "confidence_base 0.25 0.6 0.2 = 0.9"
    by (simp add: confidence_base_def Let_def)
  have b: "calculate_confidence 0.25 0.6 0.2 = 0.6075"
    by (simp add: calculate_confidence_def confidence_base_def Let_def)
  have c: "calculate_confidence t s e
       = max 0 (min 1 (confidence_base t s e * (0.5 + 0.5 * ((\<bar>t\<bar> + \<bar>s\<bar> + \<bar>e\<bar>) / 3))))"
    by (simp add: calculate_confidence_def Let_def add.assoc)
  show ?thesis
    using a b c calculate_confidence_refines [of t s e] confidence_base_refines [of t s e]
    by simp
qed

text \<open>
  Claim C7, as stated, fails: on the empty series \<open>calculate_moving_averages\<close> returns the
  empty dictionary; it does not raise.
\<close>

theorem empty_history_counterexample:
  "calculate_moving_averages [] = Inr empty_dict"
  by (simp add: calculate_moving_averages_def)

text \<open>
  Claim C7, amended. The calculator requires no minimum length: on the empty series it
  returns the empty dictionary, it never raises on a parsed series, and its caller
  \<open>get_technical_analysis\<close> answers an empty series with the sentinel snapshot (rate 0.0,
  no moving average, trend \<open>unknown\<close>).
\<close>

theorem empty_history_returns_empty_dict:
  "calculate_moving_averages [] = Inr empty_dict
   \<and> (\<forall>rows. \<exists>d. calculate_moving_averages rows = Inr d)
   \<and> (\<forall>fetched_rate. \<exists>d. get_technical_analysis fetched_rate (Some []) = Inr d
         \<and> current_rate d = Some 0 \<and> moving_average_5 d = None \<and> moving_average_20 d = None
         \<and> moving_average_50 d = None \<and> trend_direction d = Some ''unknown'')"
proof -
  have a: "calculate_moving_averages [] = Inr empty_dict"
    by (simp add: calculate_moving_averages_def)
  have c: "\<exists>d. get_technical_analysis fetched_rate (Some []) = Inr d
         \<and> current_rate d = Some 0 \<and> moving_average_5 d = None \<and> moving_average_20 d = None
         \<and> moving_average_50 d = None \<and> trend_direction d = Some ''unknown''" for fetched_rate
    by (cases fetched_rate) (simp_all add: get_technical_analysis_def)
  show ?thesis
    using a c calculate_moving_averages_returns by blast
qed

text \<open>
  Claim C3, as stated, fails: for a history of four closes the calculator reports the
  trend \<open>neutral\<close>, not \<open>unknown\<close>, and the technical score of the snapshot is normalised
  by a count of one signal (the trend signal), not of zero.
\<close>

theorem four_closes_counterexample:
  "calculate_moving_averages four_closes = Inr four_closes_result
   \<and> moving_average_5 four_closes_result = None
   \<and> trend_direction four_closes_result = Some ''neutral''
   \<and> trend_direction four_closes_result \<noteq> Some ''unknown''
   \<and> technical_signals four_closes_result = (0, 1)
   \<and> snd (technical_signals four_closes_result) \<noteq> 0"
proof -
  have ne: "four_closes \<noteq> []"
    by (simp add: four_closes_def)
  have len: "length four_closes = 4"
    by (simp add: four_closes_def)
  have a: "calculate_moving_averages four_closes = Inr four_closes_result"
    using ne len
    by (simp add: calculate_moving_averages_def Let_def four_closes_sorted
        rolling_mean_last_def four_closes_result_def)
  have b: "technical_signals four_closes_result = (0, 1)"
    by (simp add: technical_signals_def four_closes_result_def)
  show ?thesis
    using a b by (simp add: four_closes_result_def)
qed

text \<open>
  Claim C3, amended. For a price history of exactly four closes the calculator reports
  all three moving averages as absent and the trend as \<open>neutral\<close>; the technical score
  computed from that result, and from the snapshot \<open>get_technical_analysis\<close> builds from
  it with any quote, is 0.0, obtained as the accumulator 0.0 divided by the count 1.
\<close>

theorem four_closes_snapshot:
  assumes "length rows = 4"
  shows "(\<exists>d. calculate_moving_averages rows = Inr d
            \<and> moving_average_5 d = None \<and> moving_average_20 d = None
            \<and> moving_average_50 d = None
            \<and> trend_direction d = Some ''neutral''
            \<and> technical_signals d = (0, 1)
            \<and> calculate_technical_score d = 0)
       \<and> (\<exists>td. get_technical_analysis (Some rate) (Some rows) = Inr td
            \<and> current_rate td = Some rate
            \<and> moving_average_5 td = None \<and> moving_average_20 td = None
            \<and> moving_average_50 td = None
            \<and> trend_direction td = Some ''neutral''
            \<and> technical_signals td = (0, 1)
            \<and> calculate_technical_score td = 0)"
proof -
  have ne: "rows \<noteq> []"
    using assms by auto
  define d where "d =
     \<lparr>current_rate = None, moving_average_5 = None, moving_average_20 = None,
      moving_average_50 = None, trend_direction = Some ''neutral'',
      current_price = Some (last (map snd (sort_key fst rows))), summary = None\<rparr>"
  have a: "calculate_moving_averages rows = Inr d"
    using ne assms
    by (simp add: calculate_moving_averages_def Let_def rolling_mean_last_def d_def)
  have sig: "technical_signals d = (0, 1)"
    by (simp add: technical_signals_def d_def)
  have sc: "calculate_technical_score d = 0"
    by (simp add: calculate_technical_score_def sig)
  define td where "td =
     \<lparr>current_rate = Some rate, moving_average_5 = None, moving_average_20 = None,
      moving_average_50 = None, trend_direction = Some ''neutral'',
      current_price = None, summary = Some (generate_technical_summary d rate)\<rparr>"
  have b: "get_technical_analysis (Some rate) (Some rows) = Inr td"
    using ne by (simp add: get_technical_analysis_def a td_def d_def)
  have sig': "technical_signals td = (0, 1)"
    by (simp add: technical_signals_def td_def)
  have sc': "calculate_technical_score td = 0"
    by (simp add: calculate_technical_score_def sig')
  have one: "\<exists>d. calculate_moving_averages rows = Inr d
            \<and> moving_average_5 d = None \<and> moving_average_20 d = None
            \<and> moving_average_50 d = None
            \<and> trend_direction d = Some ''neutral''
            \<and> technical_signals d = (0, 1)
            \<and> calculate_technical_score d = 0"
    using a sig sc by (intro exI [of _ d]) (simp add: d_def)
  have two: "\<exists>td. get_technical_analysis (Some rate) (Some rows) = Inr td
            \<and> current_rate td = Some rate
            \<and> moving_average_5 td = None \<and> moving_average_20 td = None
            \<and> moving_average_50 td = None
            \<and> trend_direction td = Some ''neutral''
            \<and> technical_signals td = (0, 1)
            \<and> calculate_technical_score td = 0"
    using b sig' sc' by (intro exI [of _ td]) (simp add: td_def)
  show ?thesis using one two by blast
qed

theorem four_closes_snapshot_witness:
  "length four_closes = 4
   \<and> (\<exists>d. calculate_moving_averages four_closes = Inr d
            \<and> moving_average_5 d = None
            \<and> trend_direction d = Some ''neutral''
            \<and> technical_signals d = (0, 1)
            \<and> calculate_technical_score d = 0)"
proof -
  have l: "length four_closes = 4"
    by (simp add: four_closes_def)
  show ?thesis
    using l four_closes_snapshot [OF l, of "1.1"] by blast
qed

text \<open>
  Claim C8, as stated, fails: after \<open>update_thresholds(0.1, -0.1)\<close> two inputs are both
  classified BUY, one with weighted sentiment score 0 and one with 0.5, and the closing
  sections of their justifications differ (the second has the sentence on positive market
  sentiment, the first has not).
\<close>

theorem closing_section_counterexample:
  "reachable narrow_engine
   \<and> recommendation (generate_recommendation narrow_engine ''EUR/USD'' upward_snapshot
        flat_news 1.1) = BUY
   \<and> recommendation (generate_recommendation narrow_engine ''EUR/USD'' upward_snapshot
        positive_news 1.1) = BUY
   \<and> final_section (justification (generate_recommendation narrow_engine ''EUR/USD''
        upward_snapshot flat_news 1.1))
     \<noteq> final_section (justification (generate_recommendation narrow_engine ''EUR/USD''
        upward_snapshot positive_news 1.1))"
proof -
  have r: "reachable narrow_engine"
    using reachable_thresholds [OF reachable_init narrow_engine_fields(1)] .
  have a: "recommendation (generate_recommendation narrow_engine ''EUR/USD'' upward_snapshot
        flat_news 1.1) = BUY"
    by (simp add: generate_recommendation_fields upward_snapshot_score flat_news_scores
        narrow_engine_fields determine_recommendation_def)
  have b: "recommendation (generate_recommendation narrow_engine ''EUR/USD'' upward_snapshot
        positive_news 1.1) = BUY"
    by (simp add: generate_recommendation_fields upward_snapshot_score positive_news_scores
        narrow_engine_fields determine_recommendation_def)
  have sa: "sentiment_score (generate_recommendation narrow_engine ''EUR/USD'' upward_snapshot
        flat_news 1.1) = 0"
    by (simp add: generate_recommendation_fields flat_news_scores)
  have sb: "sentiment_score (generate_recommendation narrow_engine ''EUR/USD'' upward_snapshot
        positive_news 1.1) = 0.5"
    by (simp add: generate_recommendation_fields positive_news_scores)
  show ?thesis
    unfolding final_section_of_result a b sa sb
    using r final_reasoning_differs by simp
qed

text \<open>
  Claim C8, amended. The closing section of the justification is a function of the
  recommendation label and of the sign of the weighted sentiment score: for HOLD it is
  fixed; for BUY it depends only on whether the sentiment score is positive, for SELL only
  on whether it is negative. Under the initial configuration it is a function of the label
  alone, since there BUY forces a positive and SELL a negative sentiment score.
\<close>

theorem closing_section_determined:
  "final_section (justification (generate_recommendation cfg pair td sd rate))
     = final_reasoning (recommendation (generate_recommendation cfg pair td sd rate))
         (sentiment_score (generate_recommendation cfg pair td sd rate))
   \<and> final_reasoning HOLD s = final_reasoning HOLD s'
   \<and> ((s > 0) = (s' > 0) \<longrightarrow> final_reasoning BUY s = final_reasoning BUY s')
   \<and> ((s < 0) = (s' < 0) \<longrightarrow> final_reasoning SELL s = final_reasoning SELL s')
   \<and> (recommendation (generate_recommendation StrategyEngine_init pair td sd rate)
        = recommendation (generate_recommendation StrategyEngine_init pair' td' sd' rate')
      \<longrightarrow> final_section (justification
              (generate_recommendation StrategyEngine_init pair td sd rate))
          = final_section (justification
              (generate_recommendation StrategyEngine_init pair' td' sd' rate')))"
proof -
  let ?r = "generate_recommendation StrategyEngine_init pair td sd rate"
  let ?r' = "generate_recommendation StrategyEngine_init pair' td' sd' rate'"
  have dflt: "final_section (justification ?r) = final_section (justification ?r')"
    if same: "recommendation ?r = recommendation ?r'"
  proof (cases "recommendation ?r")
    case BUY
    have "calculate_sentiment_score sd > 0" "calculate_sentiment_score sd' > 0"
      using BUY same default_buy_needs_positive_sentiment [of pair td sd rate]
        default_buy_needs_positive_sentiment [of pair' td' sd' rate'] by simp_all
    then have "final_reasoning BUY (calculate_sentiment_score sd)
        = final_reasoning BUY (calculate_sentiment_score sd')"
      by (intro final_reasoning_cases(2)) simp
    then show ?thesis
      unfolding final_section_of_result using BUY same
      by (simp add: generate_recommendation_fields(2))
  next
    case HOLD
    then show ?thesis
      unfolding final_section_of_result using same final_reasoning_cases(1)
      by (simp add: generate_recommendation_fields(2))
  next
    case SELL
    have "calculate_sentiment_score sd < 0" "calculate_sentiment_score sd' < 0"
      using SELL same default_sell_needs_negative_sentiment [of pair td sd rate]
        default_sell_needs_negative_sentiment [of pair' td' sd' rate'] by simp_all
    then have "final_reasoning SELL (calculate_sentiment_score sd)
        = final_reasoning SELL (calculate_sentiment_score sd')"
      by (intro final_reasoning_cases(3)) simp
    then show ?thesis
      unfolding final_section_of_result using SELL same
      by (simp add: generate_recommendation_fields(2))
  qed
  show ?thesis
    using final_section_of_result [of cfg pair td sd rate] final_reasoning_cases [of s s'] dflt
    by blast
qed

theorem closing_section_determined_witness:
  "recommendation (generate_recommendation StrategyEngine_init ''EUR/USD'' upward_snapshot
      flat_news 1.1)
     = recommendation (generate_recommendation StrategyEngine_init ''GBP/USD'' empty_dict
         positive_news 1.3)
   \<and> final_section (justification (generate_recommendation StrategyEngine_init ''EUR/USD''
        upward_snapshot flat_news 1.1))
     = final_section (justification (generate_recommendation StrategyEngine_init ''GBP/USD''
        empty_dict positive_news 1.3))
   \<and> ((0.6::real) > 0) = ((0.2::real) > 0)
   \<and> final_reasoning BUY 0.6 = final_reasoning BUY 0.2
   \<and> ((- 0.6::real) < 0) = ((- 0.2::real) < 0)
   \<and> final_reasoning SELL (- 0.6) = final_reasoning SELL (- 0.2)"
proof -
  have td0: "calculate_technical_score empty_dict = 0"
    by (simp add: calculate_technical_score_def technical_signals_def empty_dict_def)
  have a: "recommendation (generate_recommendation StrategyEngine_init ''EUR/USD''
      upward_snapshot flat_news 1.1) = HOLD"
    by (simp add: generate_recommendation_fields upward_snapshot_score flat_news_scores
        init_fields determine_recommendation_def)
  have b: "recommendation (generate_recommendation StrategyEngine_init ''GBP/USD'' empty_dict
         positive_news 1.3) = HOLD"
    by (simp add: generate_recommendation_fields td0 positive_news_scores
        init_fields determine_recommendation_def)
  have signs: "((0.6::real) > 0) = ((0.2::real) > 0)" "((- 0.6::real) < 0) = ((- 0.2::real) < 0)"
    by simp_all
  show ?thesis
    using a b signs
      closing_section_determined [of StrategyEngine_init "''EUR/USD''" upward_snapshot flat_news
        "1.1" "0.6" "0.2" "''GBP/USD''" empty_dict positive_news "1.3"]
      closing_section_determined [of StrategyEngine_init "''EUR/USD''" upward_snapshot flat_news
        "1.1" "- 0.6" "- 0.2" "''GBP/USD''" empty_dict positive_news "1.3"]
    by simp
qed

end
